theory Spec2Isabelle
  imports Main "HOL-Library.Sublist"
begin

section \<open>JavaScript values and strings\<close>

text \<open>
  The fields of a request body and the values the handlers of \<^verbatim>\<open>server.js\<close> compute
  with are JavaScript values. The scalar values a JSON body can carry are modelled
  (\<open>JUndefined\<close> is an absent field; a number is an integer), together with the two kinds
  of object that a property read on an object literal can return through the prototype
  chain: a built-in function of \<^verbatim>\<open>Object.prototype\<close> (\<open>JNative\<close> with its name) and
  \<^verbatim>\<open>Object.prototype\<close> itself. Arrays and objects nested in a body are outside the model.
\<close>

datatype jsval =
    JUndefined
  | JNull
  | JBool bool
  | JNum int
  | JStr string
  | JNative string
  | JObjectPrototype

text \<open>Truthiness, as tested by \<^verbatim>\<open>if (x)\<close>, \<^verbatim>\<open>!x\<close>, \<^verbatim>\<open>x || y\<close> and \<^verbatim>\<open>x && y\<close>.\<close>

fun truthy :: "jsval \<Rightarrow> bool" where
  "truthy JUndefined = False"
| "truthy JNull = False"
| "truthy (JBool b) = b"
| "truthy (JNum n) = (n \<noteq> 0)"
| "truthy (JStr s) = (s \<noteq> [])"
| "truthy (JNative f) = True"
| "truthy JObjectPrototype = True"

text \<open>Decimal digits of a number, as string conversion prints an integer.\<close>

definition digit :: "nat \<Rightarrow> char" where
  "digit n = char_of (48 + n)"

fun show_nat :: "nat \<Rightarrow> string" where
  "show_nat n = (if n < 10 then [digit n] else show_nat (n div 10) @ [digit (n mod 10)])"

declare show_nat.simps [simp del]

definition show_int :: "int \<Rightarrow> string" where
  "show_int i = (if i < 0 then CHR ''-'' # show_nat (nat (- i)) else show_nat (nat i))"

text \<open>
  String conversion, as performed by a template literal \<^verbatim>\<open>`${x}`\<close>, by \<^verbatim>\<open>x + "..."\<close>
  and by the use of a value as a property key.
\<close>

fun ToString :: "jsval \<Rightarrow> string" where
  "ToString JUndefined = ''undefined''"
| "ToString JNull = ''null''"
| "ToString (JBool b) = (if b then ''true'' else ''false'')"
| "ToString (JNum n) = show_int n"
| "ToString (JStr s) = s"
| "ToString (JNative f) = ''function '' @ f @ ''() { [native code] }''"
| "ToString JObjectPrototype = ''[object Object]''"

text \<open>
  A string is held as the UTF-8 encoding of the JavaScript string, so the characters of
  ASCII are single bytes and every other character is a sequence of bytes above 127.

  \<^verbatim>\<open>trim\<close> strips from both ends the white space and the line terminators of
  ECMAScript: tab, line feed, vertical tab, form feed, carriage return, space, the
  no-break space U+00A0, U+1680, U+2000 to U+200A, the line and paragraph separators
  U+2028 and U+2029, U+202F, U+205F, U+3000 and the byte order mark U+FEFF.
\<close>

definition white_space :: "string list" where
  "white_space =
     [[CHR 0x09], [CHR 0x0A], [CHR 0x0B], [CHR 0x0C], [CHR 0x0D], [CHR 0x20],
      [CHR 0xC2, CHR 0xA0],
      [CHR 0xE1, CHR 0x9A, CHR 0x80],
      [CHR 0xE2, CHR 0x80, CHR 0x80], [CHR 0xE2, CHR 0x80, CHR 0x81],
      [CHR 0xE2, CHR 0x80, CHR 0x82], [CHR 0xE2, CHR 0x80, CHR 0x83],
      [CHR 0xE2, CHR 0x80, CHR 0x84], [CHR 0xE2, CHR 0x80, CHR 0x85],
      [CHR 0xE2, CHR 0x80, CHR 0x86], [CHR 0xE2, CHR 0x80, CHR 0x87],
      [CHR 0xE2, CHR 0x80, CHR 0x88], [CHR 0xE2, CHR 0x80, CHR 0x89],
      [CHR 0xE2, CHR 0x80, CHR 0x8A],
      [CHR 0xE2, CHR 0x80, CHR 0xA8], [CHR 0xE2, CHR 0x80, CHR 0xA9],
      [CHR 0xE2, CHR 0x80, CHR 0xAF],
      [CHR 0xE2, CHR 0x81, CHR 0x9F],
      [CHR 0xE3, CHR 0x80, CHR 0x80],
      [CHR 0xEF, CHR 0xBB, CHR 0xBF]]"

text \<open>
  \<open>strip ws s\<close> removes from the front of \<open>s\<close> every leading occurrence of a sequence of
  \<open>ws\<close>. An encoded character is never the beginning or the end of another one, so
  stripping the encodings from the front, and their reversals from the reversed string,
  removes whole characters only.
\<close>

fun strip :: "string list \<Rightarrow> string \<Rightarrow> string" where
  "strip ws [] = []"
| "strip ws (c # cs) =
     (case find (\<lambda>w. take (length w) (c # cs) = w) ws of
        None \<Rightarrow> c # cs
      | Some w \<Rightarrow> strip ws (drop (length w - 1) cs))"

definition trim :: "string \<Rightarrow> string" where
  "trim s = rev (strip (map rev white_space) (rev (strip white_space s)))"

text \<open>\<^verbatim>\<open>s.replace(/[_-]/g, " ")\<close>\<close>

definition replace_separators :: "string \<Rightarrow> string" where
  "replace_separators s = map (\<lambda>c. if c = CHR ''_'' \<or> c = CHR ''-'' then CHR '' '' else c) s"

text \<open>\<^verbatim>\<open>xs.join(sep)\<close> on an array of strings.\<close>

fun join :: "string \<Rightarrow> string list \<Rightarrow> string" where
  "join sep [] = []"
| "join sep [x] = x"
| "join sep (x # y # ys) = x @ sep @ join sep (y # ys)"

text \<open>The bullet of the labels, U+2022, in UTF-8.\<close>

definition bullet :: string where
  "bullet = [CHR 0xE2, CHR 0x80, CHR 0xA2]"

subsection \<open>Property reads on an object literal\<close>

text \<open>
  \<^verbatim>\<open>obj[key]\<close> on an object literal finds an own property, or else a property inherited
  from \<^verbatim>\<open>Object.prototype\<close>, or else is \<^verbatim>\<open>undefined\<close>.
\<close>

definition object_prototype :: "string \<Rightarrow> jsval option" where
  "object_prototype k =
     (if k = ''__proto__'' then Some JObjectPrototype
      else if k = ''constructor'' then Some (JNative ''Object'')
      else if k \<in> set [''toString'', ''toLocaleString'', ''valueOf'', ''hasOwnProperty'',
                        ''isPrototypeOf'', ''propertyIsEnumerable'', ''__defineGetter__'',
                        ''__defineSetter__'', ''__lookupGetter__'', ''__lookupSetter__'']
      then Some (JNative k)
      else None)"

datatype 'a property = Own 'a | Inherited jsval | Absent

definition js_get :: "(string \<times> 'a) list \<Rightarrow> string \<Rightarrow> 'a property" where
  "js_get obj k =
     (case map_of obj k of
        Some v \<Rightarrow> Own v
      | None \<Rightarrow> (case object_prototype k of Some v \<Rightarrow> Inherited v | None \<Rightarrow> Absent))"

section \<open>The outside world\<close>

text \<open>
  The credential exchange, the catalog search and the clock are outside the program.
  An environment fixes their behaviour: \<open>clock env n\<close> is the value of the \<open>n\<close>-th reading
  of \<^verbatim>\<open>Date.now()\<close> (milliseconds), \<open>exchange env n\<close> the response to the \<open>n\<close>-th credential
  exchange request (\<open>None\<close> when the request fails), \<open>catalog env k token q limit\<close> the
  response to the catalog request of the \<open>k\<close>-th invocation of \<^verbatim>\<open>searchTrackOnSpotify\<close>
  (\<open>None\<close> when it fails), and \<open>arrival env n\<close> the moment at which the response to the
  \<open>n\<close>-th credential exchange is delivered, which orders the cache writes of requests
  that are in flight together. The last field, \<open>unicode_lower env\<close>, is the lower-casing of
  the engine on strings with a character beyond U+00FF.
\<close>

datatype error = AuthError | SearchError | TypeError

record token_response =
  access_token :: string
  expires_in :: int

record spotify_artist =
  artist_name :: string

record spotify_item =
  item_name :: string
  item_artists :: "spotify_artist list"
  item_external_url :: string

record track =
  title :: string
  artist :: string
  url :: string

record env =
  clock :: "nat \<Rightarrow> int"
  exchange :: "nat \<Rightarrow> token_response option"
  catalog :: "nat \<Rightarrow> string \<Rightarrow> jsval \<Rightarrow> nat \<Rightarrow> spotify_item list option"
  arrival :: "nat \<Rightarrow> nat"
  unicode_lower :: "string \<Rightarrow> string"

text \<open>
  \<^verbatim>\<open>toLowerCase\<close> follows the case mappings of Unicode. On the characters up to U+00FF
  they are written out: \<^verbatim>\<open>A\<close>..\<^verbatim>\<open>Z\<close> go to \<^verbatim>\<open>a\<close>..\<^verbatim>\<open>z\<close>, the capital letters U+00C0 to
  U+00DE, without the multiplication sign U+00D7, go to the letter 32 places further,
  and every other character stays. In UTF-8 the characters U+0080 to U+00BF are the byte
  0xC2 and U+00C0 to U+00FF the byte 0xC3, each followed by one byte from 0x80 to 0xBF.
  \<open>lower_latin1\<close> is \<open>None\<close> on a string with a character beyond U+00FF. For such a string
  the result is fixed by the Unicode tables of the JavaScript engine, which are no part
  of the program: it is taken from the environment, as \<open>unicode_lower env s\<close>.
\<close>

definition is_ascii :: "char \<Rightarrow> bool" where
  "is_ascii c = ((of_char c :: nat) < 128)"

definition is_continuation :: "char \<Rightarrow> bool" where
  "is_continuation c = (let n = (of_char c :: nat) in 128 \<le> n \<and> n \<le> 191)"

definition lower_char :: "char \<Rightarrow> char" where
  "lower_char c =
     (let n = (of_char c :: nat) in if 65 \<le> n \<and> n \<le> 90 then char_of (n + 32) else c)"

definition lower_second :: "char \<Rightarrow> char \<Rightarrow> char" where
  "lower_second c d =
     (let n = (of_char d :: nat)
      in if c = CHR 0xC3 \<and> 128 \<le> n \<and> n \<le> 158 \<and> n \<noteq> 151 then char_of (n + 32) else d)"

fun lower_latin1 :: "string \<Rightarrow> string option" where
  "lower_latin1 [] = Some []"
| "lower_latin1 [c] = (if is_ascii c then Some [lower_char c] else None)"
| "lower_latin1 (c # d # ds) =
     (if is_ascii c then map_option ((#) (lower_char c)) (lower_latin1 (d # ds))
      else if (c = CHR 0xC2 \<or> c = CHR 0xC3) \<and> is_continuation d then
        map_option (\<lambda>r. c # lower_second c d # r) (lower_latin1 ds)
      else None)"

definition toLowerCase :: "env \<Rightarrow> string \<Rightarrow> string" where
  "toLowerCase env s = (case lower_latin1 s of Some r \<Rightarrow> r | None \<Rightarrow> unicode_lower env s)"

text \<open>
  The state of the process: the two module variables of the credential cache, and
  counters and a log that make the traffic with the outside world observable.
\<close>

record world =
  spotifyAccessToken :: "string option"
  spotifyTokenExpiresAt :: int
  reads :: nat
  exchanges :: nat
  calls :: nat
  searches :: "(jsval \<times> nat) list"

section \<open>Credential cache\<close>

text \<open>
  \<^verbatim>\<open>getSpotifyAccessToken\<close> runs without interruption up to its \<^verbatim>\<open>await\<close>: it reads the
  clock, tests the cache and, on a miss, issues the exchange request (\<open>token_begin\<close>).
  When the response is there it writes the cache and returns (\<open>token_value\<close>,
  \<open>token_store\<close>). A cached token counts when it is truthy: not \<^verbatim>\<open>null\<close> and not empty.
\<close>

datatype pending = Hit string | Miss nat int

definition token_begin :: "env \<Rightarrow> world \<Rightarrow> pending \<times> world" where
  "token_begin env w =
     (let now = clock env (reads w);
          w1 = w\<lparr>reads := Suc (reads w)\<rparr>
      in case spotifyAccessToken w of
           Some tok \<Rightarrow>
             if tok \<noteq> [] \<and> now < spotifyTokenExpiresAt w then (Hit tok, w1)
             else (Miss (exchanges w) now, w1\<lparr>exchanges := Suc (exchanges w)\<rparr>)
         | None \<Rightarrow> (Miss (exchanges w) now, w1\<lparr>exchanges := Suc (exchanges w)\<rparr>))"

definition token_value :: "env \<Rightarrow> pending \<Rightarrow> error + string" where
  "token_value env p =
     (case p of
        Hit tok \<Rightarrow> Inr tok
      | Miss n now \<Rightarrow>
          (case exchange env n of None \<Rightarrow> Inl AuthError | Some res \<Rightarrow> Inr (access_token res)))"

definition token_store :: "env \<Rightarrow> pending \<Rightarrow> world \<Rightarrow> world" where
  "token_store env p w =
     (case p of
        Hit tok \<Rightarrow> w
      | Miss n now \<Rightarrow>
          (case exchange env n of
             None \<Rightarrow> w
           | Some res \<Rightarrow>
               w\<lparr>spotifyAccessToken := Some (access_token res),
                  spotifyTokenExpiresAt := now + expires_in res * 1000\<rparr>))"

definition getSpotifyAccessToken :: "env \<Rightarrow> world \<Rightarrow> (error + string) \<times> world" where
  "getSpotifyAccessToken env w =
     (let (p, w1) = token_begin env w in (token_value env p, token_store env p w1))"

section \<open>Catalog search\<close>

text \<open>
  \<^verbatim>\<open>searchTrackOnSpotify\<close> first obtains a token. Its synchronous part (\<open>search_begin\<close>)
  therefore is the synchronous part of \<^verbatim>\<open>getSpotifyAccessToken\<close>; the rest
  (\<open>search_end\<close>) runs when the token is there: the catalog request, and the mapping of
  the raw items to tracks. A sequential \<^verbatim>\<open>await searchTrackOnSpotify(q, limit)\<close> is the
  one followed by the other.
\<close>

record call =
  call_id :: nat
  call_query :: jsval
  call_limit :: nat
  call_token :: pending

definition toTrack :: "spotify_item \<Rightarrow> track" where
  "toTrack t =
     \<lparr>title = item_name t,
      artist = join '', '' (map artist_name (item_artists t)),
      url = item_external_url t\<rparr>"

definition search_begin :: "env \<Rightarrow> jsval \<Rightarrow> nat \<Rightarrow> world \<Rightarrow> call \<times> world" where
  "search_begin env q limit w =
     (let (p, w1) = token_begin env w
      in (\<lparr>call_id = calls w, call_query = q, call_limit = limit, call_token = p\<rparr>,
          w1\<lparr>calls := Suc (calls w)\<rparr>))"

definition call_outcome :: "env \<Rightarrow> call \<Rightarrow> error + track list" where
  "call_outcome env c =
     (case token_value env (call_token c) of
        Inl e \<Rightarrow> Inl e
      | Inr token \<Rightarrow>
          (case catalog env (call_id c) token (call_query c) (call_limit c) of
             None \<Rightarrow> Inl SearchError
           | Some items \<Rightarrow> Inr (map toTrack items)))"

definition log_request :: "env \<Rightarrow> call \<Rightarrow> world \<Rightarrow> world" where
  "log_request env c w =
     (case token_value env (call_token c) of
        Inl e \<Rightarrow> w
      | Inr token \<Rightarrow> w\<lparr>searches := searches w @ [(call_query c, call_limit c)]\<rparr>)"

definition search_end :: "env \<Rightarrow> call \<Rightarrow> world \<Rightarrow> (error + track list) \<times> world" where
  "search_end env c w =
     (call_outcome env c, log_request env c (token_store env (call_token c) w))"

definition searchTrackOnSpotify ::
  "env \<Rightarrow> jsval \<Rightarrow> nat \<Rightarrow> world \<Rightarrow> (error + track list) \<times> world" where
  "searchTrackOnSpotify env q limit w =
     (let (c, w1) = search_begin env q limit w in search_end env c w1)"

section \<open>Requests and responses\<close>

record body =
  mode :: jsval
  year :: jsval
  prompt :: jsval
  vibe :: jsval
  mood :: jsval
  language :: jsval

record meta =
  label :: string
  snapshot :: "string option"

datatype response =
    Json_stages "track list" "track list" "track list"
  | Json_tracks "track list" meta
  | Status_error nat string

section \<open>The therapy endpoint: three stages\<close>

definition qsets :: "(string \<times> (string \<times> string \<times> string)) list" where
  "qsets =
     [(''sad'', (''healing acoustic'', ''emotional mellow'', ''uplifting indie'')),
      (''angry'', (''calming ambient'', ''soft piano'', ''positive pop'')),
      (''fearful'', (''comfort calm vocal'', ''lofi relax'', ''confidence pop'')),
      (''disgusted'', (''neutral chill'', ''soft indie'', ''fresh upbeat'')),
      (''surprised'', (''atmosphere calm'', ''soft pop'', ''bright vibes'')),
      (''happy'', (''joy acoustic'', ''good vibes pop'', ''high energy'')),
      (''neutral'', (''lofi calm'', ''indie mellow'', ''optimistic beats''))]"

text \<open>
  \<^verbatim>\<open>(qsets[mood] || qsets.neutral)\<close> and its elements 0, 1 and 2: an inherited property is
  truthy and has no such elements.
\<close>

definition stage_queries :: "jsval \<Rightarrow> jsval \<times> jsval \<times> jsval" where
  "stage_queries m =
     (case js_get qsets (ToString m) of
        Own (a, b, c) \<Rightarrow> (JStr a, JStr b, JStr c)
      | Inherited v \<Rightarrow> (JUndefined, JUndefined, JUndefined)
      | Absent \<Rightarrow> (JStr ''lofi calm'', JStr ''indie mellow'', JStr ''optimistic beats''))"

definition getStage ::
  "env \<Rightarrow> string \<Rightarrow> jsval \<Rightarrow> world \<Rightarrow> (error + track list) \<times> world" where
  "getStage env sfx q w =
     (case searchTrackOnSpotify env (JStr (ToString q @ sfx)) 8 w of
        (Inl e, w1) \<Rightarrow> (Inl e, w1)
      | (Inr r, w1) \<Rightarrow>
          if r = [] then
            (case searchTrackOnSpotify env q 8 w1 of
               (Inl e, w2) \<Rightarrow> (Inl e, w2)
             | (Inr r2, w2) \<Rightarrow> (Inr (take 6 r2), w2))
          else (Inr (take 6 r), w1))"

text \<open>\<^verbatim>\<open>(language || "english").toLowerCase()\<close>: a truthy value that is no string has no such method.\<close>

definition language_of :: "env \<Rightarrow> jsval \<Rightarrow> error + string" where
  "language_of env l =
     (if truthy l then (case l of JStr s \<Rightarrow> Inr (toLowerCase env s) | _ \<Rightarrow> Inl TypeError)
      else Inr (toLowerCase env ''english''))"

definition suffix_of :: "string \<Rightarrow> string" where
  "suffix_of lang =
     (if lang = ''punjabi'' then '' punjabi'' else if lang = ''hindi'' then '' hindi'' else [])"

definition therapy :: "env \<Rightarrow> body \<Rightarrow> world \<Rightarrow> response \<times> world" where
  "therapy env b w =
     (if \<not> truthy (mood b) then (Status_error 400 ''Mood missing'', w)
      else
        case language_of env (language b) of
          Inl e \<Rightarrow> (Status_error 500 ''Server error'', w)
        | Inr lang \<Rightarrow>
            (let sfx = suffix_of lang;
                 (q0, q1, q2) = stage_queries (mood b)
             in case getStage env sfx q0 w of
                  (Inl e, w1) \<Rightarrow> (Status_error 500 ''Server error'', w1)
                | (Inr stage1, w1) \<Rightarrow>
                    (case getStage env sfx q1 w1 of
                       (Inl e, w2) \<Rightarrow> (Status_error 500 ''Server error'', w2)
                     | (Inr stage2, w2) \<Rightarrow>
                         (case getStage env sfx q2 w2 of
                            (Inl e, w3) \<Rightarrow> (Status_error 500 ''Server error'', w3)
                          | (Inr stage3, w3) \<Rightarrow> (Json_stages stage1 stage2 stage3, w3)))))"

section \<open>The nostalgia endpoint\<close>

text \<open>
  The handler first builds the query and the label, leaving with status 400 when a
  parameter is missing (\<open>nostalgia_plan\<close>), and only then searches.
\<close>

definition nostalgia_base :: "body \<Rightarrow> string + (string \<times> string)" where
  "nostalgia_base b =
     (if mode b = JStr ''childhood'' then
        Inr (''2000s kids show theme nostalgic soft happy'',
             ''Childhood '' @ bullet @ '' Nostalgic mix'')
      else if mode b = JStr ''teen'' then
        Inr (''2010 teenage anthems pop rock nostalgia school vibes'',
             ''Teenage Years '' @ bullet @ '' Nostalgic mix'')
      else if mode b = JStr ''year'' then
        (if \<not> truthy (year b) then Inl ''Year required''
         else Inr (''top hits '' @ ToString (year b) @ '' nostalgic throwback'',
                   ''Year '' @ ToString (year b) @ '' '' @ bullet @ '' Throwback mix''))
      else if mode b = JStr ''prompt'' then
        (if \<not> truthy (prompt b) then Inl ''Prompt required''
         else Inr (ToString (prompt b) @ '' nostalgic memory aesthetic soft'',
                   ''Memory Prompt '' @ bullet @ '' Personalized mix''))
      else Inr ([], []))"

definition nostalgia_plan :: "body \<Rightarrow> string + (string \<times> string)" where
  "nostalgia_plan b =
     (if \<not> truthy (mode b) then Inl ''Missing mode''
      else
        case nostalgia_base b of
          Inl msg \<Rightarrow> Inl msg
        | Inr (query, lab) \<Rightarrow>
            (let query1 = (if truthy (vibe b) then query @ '' '' @ ToString (vibe b) @ '' vibe''
                           else query);
                 query2 = (if truthy (mood b) then query1 @ '' '' @ ToString (mood b) @ '' feel''
                           else query1)
             in Inr (query2, lab)))"

definition nostalgia :: "env \<Rightarrow> body \<Rightarrow> world \<Rightarrow> response \<times> world" where
  "nostalgia env b w =
     (case nostalgia_plan b of
        Inl msg \<Rightarrow> (Status_error 400 msg, w)
      | Inr (query, lab) \<Rightarrow>
          (case searchTrackOnSpotify env (JStr query) 20 w of
             (Inl e, w1) \<Rightarrow> (Status_error 500 ''Server error'', w1)
           | (Inr results, w1) \<Rightarrow>
               if results = [] then
                 (case searchTrackOnSpotify env (JStr ''nostalgic retro throwback'') 16 w1 of
                    (Inl e, w2) \<Rightarrow> (Status_error 500 ''Server error'', w2)
                  | (Inr results2, w2) \<Rightarrow>
                      (Json_tracks (take 12 results2)
                         \<lparr>label = lab @ '' (fallback)'', snapshot = None\<rparr>, w2))
               else (Json_tracks (take 12 results) \<lparr>label = lab, snapshot = None\<rparr>, w1)))"

section \<open>The vibe endpoint\<close>

definition vibe_map :: "(string \<times> string) list" where
  "vibe_map =
     [(''chill'', ''lofi chill beats mellow instrumental''),
      (''hype'', ''high energy pop dance upbeat''),
      (''romantic'', ''romantic slow love ballad''),
      (''dreamy'', ''ethereal ambient dream pop''),
      (''night_drive'', ''synthwave night drive neon''),
      (''rainy'', ''rainy day acoustic mellow lofi''),
      (''focus'', ''focus instrumental study lofi''),
      (''party'', ''edm club bangers high energy'')]"

text \<open>
  The \<^verbatim>\<open>else\<close> branch: \<^verbatim>\<open>map[(vibe || "custom")] || (vibe ? vibe + " music" : "chill lofi")\<close>
  and \<^verbatim>\<open>(vibe || "Custom vibe").replace(/[_-]/g, " ")\<close>, which throws when \<^verbatim>\<open>vibe\<close> is truthy
  and no string.
\<close>

definition vibe_preset :: "body \<Rightarrow> error + (jsval \<times> string)" where
  "vibe_preset b =
     (let v = vibe b;
          m = (case js_get vibe_map (ToString (if truthy v then v else JStr ''custom'')) of
                 Own s \<Rightarrow> JStr s
               | Inherited x \<Rightarrow> x
               | Absent \<Rightarrow> JUndefined);
          q = (if truthy m then m
               else if truthy v then JStr (ToString v @ '' music'')
               else JStr ''chill lofi'')
      in if truthy v then
           (case v of JStr s \<Rightarrow> Inr (q, replace_separators s) | _ \<Rightarrow> Inl TypeError)
         else Inr (q, replace_separators ''Custom vibe''))"

text \<open>\<^verbatim>\<open>prompt && prompt.trim()\<close> throws when \<^verbatim>\<open>prompt\<close> is truthy and no string.\<close>

definition vibe_base :: "body \<Rightarrow> error + (jsval \<times> string)" where
  "vibe_base b =
     (if truthy (prompt b) then
        (case prompt b of
           JStr p \<Rightarrow>
             if trim p \<noteq> [] then Inr (JStr (trim p @ '' music''), trim p) else vibe_preset b
         | _ \<Rightarrow> Inl TypeError)
      else vibe_preset b)"

definition vibe_plan :: "body \<Rightarrow> error + (jsval \<times> string)" where
  "vibe_plan b =
     (case vibe_base b of
        Inl e \<Rightarrow> Inl e
      | Inr (q, lab) \<Rightarrow>
          if truthy (mood b) then
            Inr (JStr (ToString q @ '' '' @ ToString (mood b)),
                 lab @ '' '' @ bullet @ '' '' @ ToString (mood b))
          else Inr (q, lab))"

definition vibe_meta :: "string \<Rightarrow> jsval \<Rightarrow> meta" where
  "vibe_meta lab p =
     \<lparr>label = lab,
      snapshot = Some (''Vibe: '' @ lab @ ''. '' @
                       (if truthy p then ''You described: '' @ ToString p @ ''.'' else []))\<rparr>"

definition vibe_handler :: "env \<Rightarrow> body \<Rightarrow> world \<Rightarrow> response \<times> world" where
  "vibe_handler env b w =
     (case vibe_plan b of
        Inl e \<Rightarrow> (Status_error 500 ''Server error'', w)
      | Inr (q, lab) \<Rightarrow>
          (case searchTrackOnSpotify env q 18 w of
             (Inl e, w1) \<Rightarrow> (Status_error 500 ''Server error'', w1)
           | (Inr results, w1) \<Rightarrow>
               if results = [] then
                 (case searchTrackOnSpotify env (JStr ''nostalgic chill pop'') 18 w1 of
                    (Inl e, w2) \<Rightarrow> (Status_error 500 ''Server error'', w2)
                  | (Inr results2, w2) \<Rightarrow>
                      (Json_tracks (take 12 results2)
                         (vibe_meta (lab @ '' (fallback)'') (prompt b)), w2))
               else (Json_tracks (take 12 results) (vibe_meta lab (prompt b)), w1)))"

section \<open>The bydj endpoint: fan-out\<close>

text \<open>
  \<^verbatim>\<open>queries.map(q => searchTrackOnSpotify(q, 12))\<close> starts the calls one after the other:
  each runs its synchronous part, so all of them test the cache before any response
  arrives (\<open>launch\<close>). \<^verbatim>\<open>Promise.allSettled\<close> then delivers, in the order of the queries, one
  outcome for each call started. The responses of the credential exchanges write the
  cache in the order of their arrival; the log lists the catalog requests in the order
  of the queries.
\<close>

datatype settled = Fulfilled "track list" | Rejected error

fun launch :: "env \<Rightarrow> jsval list \<Rightarrow> nat \<Rightarrow> world \<Rightarrow> call list \<times> world" where
  "launch env [] limit w = ([], w)"
| "launch env (q # qs) limit w =
     (let (c, w1) = search_begin env q limit w;
          (cs, w2) = launch env qs limit w1
      in (c # cs, w2))"

definition settle :: "env \<Rightarrow> call \<Rightarrow> settled" where
  "settle env c = (case call_outcome env c of Inl e \<Rightarrow> Rejected e | Inr v \<Rightarrow> Fulfilled v)"

definition arrival_of :: "env \<Rightarrow> call \<Rightarrow> nat" where
  "arrival_of env c = (case call_token c of Hit tok \<Rightarrow> 0 | Miss n now \<Rightarrow> arrival env n)"

definition allSettled :: "env \<Rightarrow> call list \<Rightarrow> world \<Rightarrow> settled list \<times> world" where
  "allSettled env cs w =
     (map (settle env) cs,
      fold (log_request env) cs
        (fold (\<lambda>c. token_store env (call_token c)) (sort_key (arrival_of env) cs) w))"

text \<open>\<^verbatim>\<open>await Promise.allSettled(queries.map(q => searchTrackOnSpotify(q, 12)))\<close>\<close>

definition fanout :: "env \<Rightarrow> jsval list \<Rightarrow> world \<Rightarrow> settled list \<times> world" where
  "fanout env queries w = (let (cs, w1) = launch env queries 12 w in allSettled env cs w1)"

text \<open>The loop that collects the items of the fulfilled outcomes.\<close>

fun collect :: "track list \<Rightarrow> settled list \<Rightarrow> track list" where
  "collect combined [] = combined"
| "collect combined (Fulfilled v # rs) = collect (combined @ v) rs"
| "collect combined (Rejected e # rs) = collect combined rs"

text \<open>The loop that deduplicates by title, with its set \<^verbatim>\<open>seen\<close> and its array \<^verbatim>\<open>unique\<close>.\<close>

definition title_key :: "env \<Rightarrow> track \<Rightarrow> string" where
  "title_key env t = trim (toLowerCase env (if title t = [] then [] else title t))"

fun dedupe :: "env \<Rightarrow> string set \<Rightarrow> track list \<Rightarrow> track list \<Rightarrow> track list" where
  "dedupe env seen unique [] = unique"
| "dedupe env seen unique (t # ts) =
     (let key = title_key env t
      in if key = [] then dedupe env seen unique ts
         else if key \<notin> seen then dedupe env (insert key seen) (unique @ [t]) ts
         else dedupe env seen unique ts)"

definition bydj_json :: "env \<Rightarrow> track list \<Rightarrow> jsval \<Rightarrow> response" where
  "bydj_json env combined m =
     (let final = take 12 (dedupe env {} [] combined)
      in Json_tracks final
           \<lparr>label = ''Build-A-Track result'',
            snapshot = Some (''Generated '' @ show_nat (length final) @
                             '' unique tracks from your ingredients'' @
                             (if truthy m then '' '' @ bullet @ '' mood: '' @ ToString m else []) @
                             ''.'')\<rparr>)"

definition bydj_queries :: "string \<Rightarrow> jsval list" where
  "bydj_queries p =
     take 4 (filter truthy
       [JStr p, JStr (p @ '' popular tracks''), JStr (p @ '' vibes music''),
        JStr (p @ '' top songs'')])"

definition bydj :: "env \<Rightarrow> body \<Rightarrow> world \<Rightarrow> response \<times> world" where
  "bydj env b w =
     (let p = (if prompt b = JUndefined then JStr [] else prompt b);
          m = (if mood b = JUndefined then JStr [] else mood b)
      in case p of
           JStr s \<Rightarrow>
             (let (resultsSets, w2) = fanout env (bydj_queries s) w;
                  combined = collect [] resultsSets
              in if combined = [] then
                   (case searchTrackOnSpotify env (JStr ''nostalgic mellow mix'') 20 w2 of
                      (Inl e, w3) \<Rightarrow> (Status_error 500 ''Server error'', w3)
                    | (Inr fb, w3) \<Rightarrow> (bydj_json env (combined @ fb) m, w3))
                 else (bydj_json env combined m, w2))
         | _ \<Rightarrow> (Status_error 400 ''Invalid prompt'', w))"

section \<open>Concrete environments\<close>

text \<open>
  Inputs on which the theorems below are instantiated. None of their strings has a
  character beyond U+00FF, so the lower-casing of the environment is never consulted on
  them.
\<close>

definition env0 :: env where
  "env0 =
     \<lparr>clock = (\<lambda>n. int n),
      exchange = (\<lambda>n. Some \<lparr>access_token = ''tok'', expires_in = 3600\<rparr>),
      catalog = (\<lambda>k token q limit. Some []),
      arrival = (\<lambda>n. n),
      unicode_lower = (\<lambda>s. s)\<rparr>"

definition world0 :: world where
  "world0 =
     \<lparr>spotifyAccessToken = None, spotifyTokenExpiresAt = 0, reads = 0, exchanges = 0,
      calls = 0, searches = []\<rparr>"

definition world1 :: world where
  "world1 =
     \<lparr>spotifyAccessToken = Some ''tok'', spotifyTokenExpiresAt = 3600000, reads = 1,
      exchanges = 1, calls = 0, searches = []\<rparr>"

definition item_a :: spotify_item where
  "item_a =
     \<lparr>item_name = ''Song A'',
      item_artists = [\<lparr>artist_name = ''X''\<rparr>, \<lparr>artist_name = ''Y''\<rparr>],
      item_external_url = ''https://open.spotify.com/track/a''\<rparr>"

definition item_b :: spotify_item where
  "item_b =
     \<lparr>item_name = ''Song B'',
      item_artists = [\<lparr>artist_name = ''Z''\<rparr>],
      item_external_url = ''https://open.spotify.com/track/b''\<rparr>"

definition env_hits :: env where
  "env_hits = env0\<lparr>catalog := (\<lambda>k token q limit. Some [item_a, item_b])\<rparr>"

definition track_of_title :: "string \<Rightarrow> track" where
  "track_of_title s = \<lparr>title = s, artist = ''X'', url = ''u''\<rparr>"

definition body0 :: body where
  "body0 = \<lparr>mode = JUndefined, year = JUndefined, prompt = JUndefined, vibe = JUndefined,
            mood = JUndefined, language = JUndefined\<rparr>"

definition env_partial :: env where
  "env_partial =
     env0\<lparr>catalog := (\<lambda>k token q limit.
             if k = 1 then None else if k = 0 then Some [item_a] else Some [item_b])\<rparr>"

definition item_a2 :: spotify_item where
  "item_a2 =
     \<lparr>item_name = ''Song A'',
      item_artists = [\<lparr>artist_name = ''W''\<rparr>],
      item_external_url = ''https://open.spotify.com/track/a2''\<rparr>"

definition item_blank :: spotify_item where
  "item_blank =
     \<lparr>item_name = ''  '',
      item_artists = [\<lparr>artist_name = ''V''\<rparr>],
      item_external_url = ''https://open.spotify.com/track/c''\<rparr>"

definition env_dup :: env where
  "env_dup =
     env0\<lparr>catalog := (\<lambda>k token q limit. if k = 4 then Some [item_a, item_a2] else Some [])\<rparr>"

definition env_blank :: env where
  "env_blank =
     env0\<lparr>catalog := (\<lambda>k token q limit. if k = 0 then Some [item_blank] else Some [])\<rparr>"

definition body_rainy :: body where
  "body_rainy = body0\<lparr>prompt := JStr ''rainy night''\<rparr>"

definition body_sad_hindi :: body where
  "body_sad_hindi = body0\<lparr>mood := JStr ''sad'', language := JStr ''Hindi''\<rparr>"

definition env_lang :: env where
  "env_lang =
     env0\<lparr>catalog := (\<lambda>k token q limit.
             if q \<in> set [JStr ''healing acoustic hindi'', JStr ''emotional mellow hindi'',
                          JStr ''uplifting indie hindi'']
             then Some [] else Some [item_a, item_b])\<rparr>"

definition body_calm :: body where
  "body_calm = body0\<lparr>mood := JStr ''calm''\<rparr>"

definition env_first_fails :: env where
  "env_first_fails =
     env0\<lparr>catalog := (\<lambda>k token q limit. if k = 0 then None else Some [item_a])\<rparr>"

definition body_year :: body where
  "body_year = body0\<lparr>mode := JStr ''year'', year := JNum 2010\<rparr>"

definition body_constructor :: body where
  "body_constructor = body0\<lparr>vibe := JStr ''constructor''\<rparr>"

definition env_down :: env where
  "env_down = env0\<lparr>catalog := (\<lambda>k token q limit. None)\<rparr>"

text \<open>The words \<^verbatim>\<open>CAFE\<close> and \<^verbatim>\<open>cafe\<close> with an acute accent on the last letter, and a no-break space.\<close>

definition cafe_capitals :: string where
  "cafe_capitals = ''CAF'' @ [CHR 0xC3, CHR 0x89]"

definition cafe_small :: string where
  "cafe_small = ''caf'' @ [CHR 0xC3, CHR 0xA9]"

definition no_break_space :: string where
  "no_break_space = [CHR 0xC2, CHR 0xA0]"

section \<open>The credential cache: reuse and refresh\<close>

lemma getToken_fst: "fst (getSpotifyAccessToken env w) = token_value env (fst (token_begin env w))"
  by (simp add: getSpotifyAccessToken_def split: prod.splits)

lemma token_hit:
  "spotifyAccessToken w = Some tok \<Longrightarrow> tok \<noteq> [] \<Longrightarrow> clock env (reads w) < spotifyTokenExpiresAt w \<Longrightarrow>
   getSpotifyAccessToken env w = (Inr tok, w\<lparr>reads := Suc (reads w)\<rparr>)"
  by (simp add: getSpotifyAccessToken_def token_begin_def token_value_def token_store_def Let_def)

lemma token_miss:
  "spotifyAccessToken w = None \<or> spotifyAccessToken w = Some [] \<or> spotifyTokenExpiresAt w \<le> clock env (reads w) \<Longrightarrow>
   token_begin env w = (Miss (exchanges w) (clock env (reads w)), w\<lparr>reads := Suc (reads w), exchanges := Suc (exchanges w)\<rparr>)"
  by (auto simp add: token_begin_def Let_def split: option.splits)

lemma token_miss_ok:
  assumes "spotifyAccessToken w = None \<or> spotifyAccessToken w = Some [] \<or> spotifyTokenExpiresAt w \<le> clock env (reads w)"
    and "exchange env (exchanges w) = Some res"
  shows "getSpotifyAccessToken env w =
             (Inr (access_token res),
              w\<lparr>reads := Suc (reads w), exchanges := Suc (exchanges w),
                spotifyAccessToken := Some (access_token res),
                spotifyTokenExpiresAt := clock env (reads w) + expires_in res * 1000\<rparr>)"
  using token_miss [OF assms(1)] assms(2)
  by (simp add: getSpotifyAccessToken_def token_value_def token_store_def)

lemma token_miss_fail:
  assumes "spotifyAccessToken w = None \<or> spotifyAccessToken w = Some [] \<or> spotifyTokenExpiresAt w \<le> clock env (reads w)"
    and "exchange env (exchanges w) = None"
  shows "getSpotifyAccessToken env w =
             (Inl AuthError, w\<lparr>reads := Suc (reads w), exchanges := Suc (exchanges w)\<rparr>)"
  using token_miss [OF assms(1)] assms(2)
  by (simp add: getSpotifyAccessToken_def token_value_def token_store_def)

text \<open>
  C1. Two calls of \<^verbatim>\<open>getSpotifyAccessToken\<close> made while a truthy token is cached and the
  clock reads strictly less than \<^verbatim>\<open>spotifyTokenExpiresAt\<close> both return the cached token
  and change nothing but the count of clock readings: no credential exchange and no
  other request is made. Counted from an empty or expired cache, a call whose exchange
  succeeds with a non-empty token and a second call within the lifetime return the same
  token, with exactly one exchange in total.
\<close>

theorem token_reuse:
  "(spotifyAccessToken w = Some tok \<and> tok \<noteq> [] \<and>
    clock env (reads w) < spotifyTokenExpiresAt w \<and>
    clock env (Suc (reads w)) < spotifyTokenExpiresAt w \<longrightarrow>
      getSpotifyAccessToken env w = (Inr tok, w\<lparr>reads := Suc (reads w)\<rparr>) \<and>
      getSpotifyAccessToken env (w\<lparr>reads := Suc (reads w)\<rparr>) =
        (Inr tok, w\<lparr>reads := Suc (Suc (reads w))\<rparr>)) \<and>
   ((spotifyAccessToken v = None \<or> spotifyAccessToken v = Some [] \<or>
     spotifyTokenExpiresAt v \<le> clock env (reads v)) \<and>
    exchange env (exchanges v) = Some res \<and> access_token res \<noteq> [] \<and>
    clock env (Suc (reads v)) < clock env (reads v) + expires_in res * 1000 \<longrightarrow>
      (\<exists>v1 v2. getSpotifyAccessToken env v = (Inr (access_token res), v1) \<and>
               getSpotifyAccessToken env v1 = (Inr (access_token res), v2) \<and>
               exchanges v2 = Suc (exchanges v)))"
proof (intro conjI impI)
  assume h: "spotifyAccessToken w = Some tok \<and> tok \<noteq> [] \<and>
    clock env (reads w) < spotifyTokenExpiresAt w \<and>
    clock env (Suc (reads w)) < spotifyTokenExpiresAt w"
  then show "getSpotifyAccessToken env w = (Inr tok, w\<lparr>reads := Suc (reads w)\<rparr>)"
    by (simp add: token_hit)
  from h show "getSpotifyAccessToken env (w\<lparr>reads := Suc (reads w)\<rparr>) =
        (Inr tok, w\<lparr>reads := Suc (Suc (reads w))\<rparr>)"
    using token_hit [of "w\<lparr>reads := Suc (reads w)\<rparr>" tok env] by simp
next
  assume h: "(spotifyAccessToken v = None \<or> spotifyAccessToken v = Some [] \<or>
     spotifyTokenExpiresAt v \<le> clock env (reads v)) \<and>
    exchange env (exchanges v) = Some res \<and> access_token res \<noteq> [] \<and>
    clock env (Suc (reads v)) < clock env (reads v) + expires_in res * 1000"
  let ?v1 = "v\<lparr>reads := Suc (reads v), exchanges := Suc (exchanges v),
                spotifyAccessToken := Some (access_token res),
                spotifyTokenExpiresAt := clock env (reads v) + expires_in res * 1000\<rparr>"
  have 1: "getSpotifyAccessToken env v = (Inr (access_token res), ?v1)"
    using h by (intro token_miss_ok) simp_all
  have 2: "getSpotifyAccessToken env ?v1 = (Inr (access_token res), ?v1\<lparr>reads := Suc (reads ?v1)\<rparr>)"
    using h by (intro token_hit) simp_all
  show "\<exists>v1 v2. getSpotifyAccessToken env v = (Inr (access_token res), v1) \<and>
               getSpotifyAccessToken env v1 = (Inr (access_token res), v2) \<and>
               exchanges v2 = Suc (exchanges v)"
    using 1 2 by (intro exI [of _ ?v1] exI [of _ "?v1\<lparr>reads := Suc (reads ?v1)\<rparr>"]) simp
qed

theorem token_reuse_witness:
  "getSpotifyAccessToken env0 world1 = (Inr ''tok'', world1\<lparr>reads := 2\<rparr>) \<and>
   getSpotifyAccessToken env0 (world1\<lparr>reads := 2\<rparr>) = (Inr ''tok'', world1\<lparr>reads := 3\<rparr>) \<and>
   (\<exists>v1 v2. getSpotifyAccessToken env0 world0 = (Inr ''tok'', v1) \<and>
            getSpotifyAccessToken env0 v1 = (Inr ''tok'', v2) \<and> exchanges v2 = 1)"
  using token_reuse [of world1 "''tok''" env0 world0 "\<lparr>access_token = ''tok'', expires_in = 3600\<rparr>"]
  by (simp add: env0_def world0_def world1_def eval_nat_numeral)

text \<open>
  C7. A call of \<^verbatim>\<open>getSpotifyAccessToken\<close> made when no truthy token is cached, or when the
  clock is at or past \<^verbatim>\<open>spotifyTokenExpiresAt\<close>, performs exactly one credential exchange.
  When the exchange succeeds, the returned token is the one stored, and the stored expiry
  is the time read at the start of the call plus the returned lifetime, which the
  response gives in seconds and the clock counts in milliseconds. When the exchange
  fails, the call fails and the cache keeps what it had.
\<close>

theorem token_refresh:
  "(spotifyAccessToken w = None \<or> spotifyAccessToken w = Some [] \<or>
    spotifyTokenExpiresAt w \<le> clock env (reads w)) \<longrightarrow>
   exchanges (snd (getSpotifyAccessToken env w)) = Suc (exchanges w) \<and>
   (\<forall>res. exchange env (exchanges w) = Some res \<longrightarrow>
      getSpotifyAccessToken env w =
        (Inr (access_token res),
         w\<lparr>reads := Suc (reads w), exchanges := Suc (exchanges w),
           spotifyAccessToken := Some (access_token res),
           spotifyTokenExpiresAt := clock env (reads w) + expires_in res * 1000\<rparr>)) \<and>
   (exchange env (exchanges w) = None \<longrightarrow>
      getSpotifyAccessToken env w =
        (Inl AuthError, w\<lparr>reads := Suc (reads w), exchanges := Suc (exchanges w)\<rparr>))"
proof (intro impI conjI allI)
  assume m: "spotifyAccessToken w = None \<or> spotifyAccessToken w = Some [] \<or>
    spotifyTokenExpiresAt w \<le> clock env (reads w)"
  show "exchanges (snd (getSpotifyAccessToken env w)) = Suc (exchanges w)"
    using token_miss_ok [OF m] token_miss_fail [OF m]
    by (cases "exchange env (exchanges w)") simp_all
  show "getSpotifyAccessToken env w =
        (Inr (access_token res),
         w\<lparr>reads := Suc (reads w), exchanges := Suc (exchanges w),
           spotifyAccessToken := Some (access_token res),
           spotifyTokenExpiresAt := clock env (reads w) + expires_in res * 1000\<rparr>)"
    if "exchange env (exchanges w) = Some res" for res
    using token_miss_ok [OF m that] .
  show "getSpotifyAccessToken env w =
        (Inl AuthError, w\<lparr>reads := Suc (reads w), exchanges := Suc (exchanges w)\<rparr>)"
    if "exchange env (exchanges w) = None"
    using token_miss_fail [OF m that] .
qed

theorem token_refresh_witness:
  "getSpotifyAccessToken env0 (world1\<lparr>spotifyTokenExpiresAt := 1\<rparr>) =
     (Inr ''tok'', world1\<lparr>reads := 2, exchanges := 2, spotifyTokenExpiresAt := 3600001\<rparr>)"
  using token_refresh [of "world1\<lparr>spotifyTokenExpiresAt := 1\<rparr>" env0]
  by (simp add: env0_def world1_def eval_nat_numeral)

section \<open>Catalog search: the mapping of the items\<close>

lemma token_begin_calls: "calls (snd (token_begin env w)) = calls w"
  by (simp add: token_begin_def Let_def split: option.splits)

lemma token_store_calls: "calls (token_store env p w) = calls w"
  by (simp add: token_store_def split: pending.splits option.splits)

lemma log_request_calls: "calls (log_request env c w) = calls w"
  by (simp add: log_request_def split: sum.splits)

lemma search_begin_calls: "calls (snd (search_begin env q limit w)) = Suc (calls w)"
  by (simp add: search_begin_def split: prod.splits)

lemma search_calls: "calls (snd (searchTrackOnSpotify env q limit w)) = Suc (calls w)"
  by (simp add: searchTrackOnSpotify_def search_end_def search_begin_def
      log_request_calls token_store_calls split: prod.splits)

lemma search_fst:
  "fst (searchTrackOnSpotify env q limit w) =
     (case fst (getSpotifyAccessToken env w) of
        Inl e \<Rightarrow> Inl e
      | Inr token \<Rightarrow>
          (case catalog env (calls w) token q limit of
             None \<Rightarrow> Inl SearchError
           | Some items \<Rightarrow> Inr (map toTrack items)))"
  by (simp add: searchTrackOnSpotify_def search_end_def search_begin_def call_outcome_def
      getToken_fst split: prod.splits sum.splits option.splits)

text \<open>
  C8. When \<^verbatim>\<open>searchTrackOnSpotify\<close> obtains a token and the catalog answers with a list of
  items, the call returns one track for each item, in the order of the items: the title
  is the name of the item, the artist is the names of its artists joined with a comma
  and a space in their order, and the url is its external Spotify link. Nothing is
  dropped, added or reordered.
\<close>

theorem search_maps_items:
  assumes "fst (getSpotifyAccessToken env w) = Inr token"
    and "catalog env (calls w) token q limit = Some items"
  shows "\<exists>r. fst (searchTrackOnSpotify env q limit w) = Inr r \<and>
             r = map toTrack items \<and>
             length r = length items \<and>
             (\<forall>i<length items.
                title (r ! i) = item_name (items ! i) \<and>
                artist (r ! i) = join '', '' (map artist_name (item_artists (items ! i))) \<and>
                url (r ! i) = item_external_url (items ! i))"
  using assms by (simp add: search_fst toTrack_def)

theorem search_maps_items_witness:
  "fst (searchTrackOnSpotify env_hits (JStr ''rainy night'') 12 world0) =
     Inr [\<lparr>title = ''Song A'', artist = ''X, Y'', url = ''https://open.spotify.com/track/a''\<rparr>,
          \<lparr>title = ''Song B'', artist = ''Z'', url = ''https://open.spotify.com/track/b''\<rparr>]"
proof -
  have t: "fst (getSpotifyAccessToken env_hits world0) = Inr ''tok''"
    by (simp add: getToken_fst token_begin_def token_value_def env_hits_def env0_def world0_def)
  have c: "catalog env_hits (calls world0) ''tok'' (JStr ''rainy night'') 12 = Some [item_a, item_b]"
    by (simp add: env_hits_def)
  show ?thesis
    using search_maps_items [OF t c] by (auto simp add: toTrack_def item_a_def item_b_def)
qed

section \<open>Deduplication by title\<close>

lemma dedupe_acc: "dedupe env seen unique xs = unique @ dedupe env seen [] xs"
proof (induction xs arbitrary: seen unique)
  case Nil
  show ?case by simp
next
  case (Cons t ts)
  show ?case
    using Cons.IH [of seen unique] Cons.IH [of "insert (title_key env t) seen" "unique @ [t]"]
      Cons.IH [of "insert (title_key env t) seen" "[t]"]
    by (simp add: Let_def)
qed

lemma dedupe_snoc:
  "dedupe env seen [] (xs @ [t]) =
     dedupe env seen [] xs @
     (if title_key env t \<noteq> [] \<and> title_key env t \<notin> seen \<union> title_key env ` set xs then [t] else [])"
proof (induction xs arbitrary: seen)
  case Nil
  show ?case by (simp add: Let_def)
next
  case (Cons x xs)
  show ?case
    using Cons.IH [of seen] Cons.IH [of "insert (title_key env x) seen"]
      dedupe_acc [of env "insert (title_key env x) seen" "[x]"]
    by (auto simp add: Let_def)
qed

lemma title_key_song_a: "trim (toLowerCase env ''Song A'') = ''song a''"
  by code_simp

lemma title_key_song_a': "trim (toLowerCase env ''song a '') = ''song a''"
  by code_simp

lemma title_key_song_b: "trim (toLowerCase env ''Song B'') = ''song b''"
  by code_simp

lemma dedupe_closed_form:
  "dedupe env {} [] xs =
     map ((!) xs)
       (filter (\<lambda>i. title_key env (xs ! i) \<noteq> [] \<and> title_key env (xs ! i) \<notin> title_key env ` set (take i xs))
          [0..<length xs])"
proof -
  define keep where
    "keep = (\<lambda>(ys :: track list) i.
               title_key env (ys ! i) \<noteq> [] \<and> title_key env (ys ! i) \<notin> title_key env ` set (take i ys))"
  have "dedupe env {} [] ys = map ((!) ys) (filter (keep ys) [0..<length ys])" for ys
  proof (induction ys rule: rev_induct)
    case Nil
    show ?case by simp
  next
    case (snoc t ys)
    have f: "filter (keep (ys @ [t])) [0..<length ys] = filter (keep ys) [0..<length ys]"
      by (rule filter_cong) (simp_all add: keep_def nth_append)
    have m: "map ((!) (ys @ [t])) (filter (keep ys) [0..<length ys]) =
             map ((!) ys) (filter (keep ys) [0..<length ys])"
      by (rule map_cong) (simp_all add: nth_append)
    have new: "keep (ys @ [t]) (length ys) \<longleftrightarrow>
               title_key env t \<noteq> [] \<and> title_key env t \<notin> title_key env ` set ys"
      by (simp add: keep_def)
    show ?case
      using snoc.IH by (simp add: dedupe_snoc f m new)
  qed
  then show ?thesis
    unfolding keep_def .
qed

lemma title_key_eq: "title_key env t = trim (toLowerCase env (title t))"
  by (simp add: title_key_def)

lemma title_key_beyond_ascii:
  "trim (toLowerCase env cafe_capitals) = cafe_small"
  "trim (toLowerCase env cafe_small) = cafe_small"
  "trim (toLowerCase env no_break_space) = []"
  "cafe_small \<noteq> []"
  by code_simp+

text \<open>
  C2. The deduplication loop keeps the element at position \<open>i\<close> of the concatenated list
  exactly when its key, the title lower-cased and trimmed, is not empty and is not the key
  of an element before it, and it keeps the elements in their order. So the first track
  of each key stays, every later track of a key already seen goes, and a track whose key
  is empty always goes. Titles \<^verbatim>\<open>Song A\<close>, \<^verbatim>\<open>song a \<close>, \<^verbatim>\<open>Song B\<close> in this order leave the first
  and the third track. The trimming is that of ECMAScript and the lower-casing that of
  Unicode, written out up to U+00FF and the one of the engine beyond, whatever the engine
  is: of two titles that differ in the case of an accented letter the second goes, and a
  title that is a no-break space goes. The response carries the first 12 of the
  deduplicated tracks.
\<close>

theorem dedupe_keeps_first_occurrences:
  "dedupe env {} [] combined =
     map ((!) combined)
       (filter (\<lambda>i. title_key env (combined ! i) \<noteq> [] \<and>
                    title_key env (combined ! i) \<notin> title_key env ` set (take i combined))
          [0..<length combined]) \<and>
   title_key env t = trim (toLowerCase env (title t)) \<and>
   (title a = ''Song A'' \<and> title b = ''song a '' \<and> title c = ''Song B'' \<longrightarrow>
      dedupe env {} [] [a, b, c] = [a, c]) \<and>
   (title a' = cafe_capitals \<and> title b' = cafe_small \<and> title c' = no_break_space \<longrightarrow>
      dedupe env {} [] [a', b', c'] = [a']) \<and>
   (\<exists>info. bydj_json env combined m = Json_tracks (take 12 (dedupe env {} [] combined)) info)"
proof (intro conjI impI)
  show "dedupe env {} [] combined =
     map ((!) combined)
       (filter (\<lambda>i. title_key env (combined ! i) \<noteq> [] \<and>
                    title_key env (combined ! i) \<notin> title_key env ` set (take i combined))
          [0..<length combined])"
    by (rule dedupe_closed_form)
  show "title_key env t = trim (toLowerCase env (title t))"
    by (rule title_key_eq)
  show "dedupe env {} [] [a, b, c] = [a, c]"
    if "title a = ''Song A'' \<and> title b = ''song a '' \<and> title c = ''Song B''"
    using that
    by (simp add: title_key_eq title_key_song_a title_key_song_a' title_key_song_b Let_def)
  show "dedupe env {} [] [a', b', c'] = [a']"
    if "title a' = cafe_capitals \<and> title b' = cafe_small \<and> title c' = no_break_space"
    using that
    by (simp add: title_key_eq title_key_beyond_ascii Let_def)
  show "\<exists>info. bydj_json env combined m = Json_tracks (take 12 (dedupe env {} [] combined)) info"
    by (simp add: bydj_json_def Let_def)
qed

theorem dedupe_keeps_first_occurrences_witness:
  "dedupe env0 {} []
     [track_of_title ''Song A'', track_of_title ''song a '', track_of_title ''Song B''] =
     [track_of_title ''Song A'', track_of_title ''Song B''] \<and>
   dedupe env0 {} []
     [track_of_title cafe_capitals, track_of_title cafe_small, track_of_title no_break_space] =
     [track_of_title cafe_capitals]"
proof
  show "dedupe env0 {} []
     [track_of_title ''Song A'', track_of_title ''song a '', track_of_title ''Song B''] =
     [track_of_title ''Song A'', track_of_title ''Song B'']"
    by (rule dedupe_keeps_first_occurrences
        [THEN conjunct2, THEN conjunct2, THEN conjunct1, THEN mp])
      (simp add: track_of_title_def)
  show "dedupe env0 {} []
     [track_of_title cafe_capitals, track_of_title cafe_small, track_of_title no_break_space] =
     [track_of_title cafe_capitals]"
    by (rule dedupe_keeps_first_occurrences
        [THEN conjunct2, THEN conjunct2, THEN conjunct2, THEN conjunct1, THEN mp])
      (simp add: track_of_title_def)
qed

section \<open>The fan-out of the bydj endpoint\<close>

lemma launch_length: "length (fst (launch env qs limit w)) = length qs"
  by (induction qs arbitrary: w) (simp_all add: case_prod_beta)

lemma launch_queries: "map call_query (fst (launch env qs limit w)) = qs"
  by (induction qs arbitrary: w) (simp_all add: search_begin_def case_prod_beta)

lemma launch_calls: "calls (snd (launch env qs limit w)) = calls w + length qs"
proof (induction qs arbitrary: w)
  case Nil
  show ?case by simp
next
  case (Cons q qs)
  show ?case
    using Cons.IH [of "snd (search_begin env q limit w)"] search_begin_calls [of env q limit w]
    by (simp add: case_prod_beta)
qed

lemma fold_log_request_calls: "calls (fold (log_request env) cs w) = calls w"
  by (induction cs arbitrary: w) (simp_all add: log_request_calls)

lemma fold_token_store_calls: "calls (fold (\<lambda>c. token_store env (call_token c)) cs w) = calls w"
  by (induction cs arbitrary: w) (simp_all add: token_store_calls)

lemma fanout_fst: "fst (fanout env qs w) = map (settle env) (fst (launch env qs 12 w))"
  by (simp add: fanout_def allSettled_def case_prod_beta)

lemma fanout_calls: "calls (snd (fanout env qs w)) = calls w + length qs"
  using launch_calls [of env qs 12 w]
  by (simp add: fanout_def allSettled_def fold_log_request_calls fold_token_store_calls
      case_prod_beta)

lemma collect_concat:
  "collect combined rs =
     combined @ concat (map (\<lambda>r. case r of Fulfilled v \<Rightarrow> v | Rejected e \<Rightarrow> []) rs)"
  by (induction combined rs rule: collect.induct) simp_all

lemma bydj_string:
  assumes "prompt b = JStr s \<or> prompt b = JUndefined \<and> s = []"
  shows "bydj env b w =
     (let m = (if mood b = JUndefined then JStr [] else mood b);
          w2 = snd (fanout env (bydj_queries s) w);
          combined = collect [] (fst (fanout env (bydj_queries s) w))
      in if combined = [] then
           (case searchTrackOnSpotify env (JStr ''nostalgic mellow mix'') 20 w2 of
              (Inl e, w3) \<Rightarrow> (Status_error 500 ''Server error'', w3)
            | (Inr fb, w3) \<Rightarrow> (bydj_json env fb m, w3))
         else (bydj_json env combined m, w2))"
  using assms by (auto simp add: bydj_def Let_def case_prod_beta split: sum.splits)

text \<open>
  C6. In the fan-out of the bydj endpoint every query started has an outcome: the list of
  outcomes is as long as the list of queries, and its \<open>i\<close>-th outcome is that of the call
  made for the \<open>i\<close>-th query, whatever becomes of the other calls. The collecting loop
  concatenates the tracks of the fulfilled outcomes in the order of the queries; a
  rejected outcome contributes no track. When the concatenation is not empty, the
  response carries the first 12 tracks of its deduplication. A request with a string
  prompt ends in an error only when nothing was collected and the fallback search
  itself failed, so a failed query of the fan-out never aborts the request.
\<close>

theorem fanout_tolerates_failures:
  "length (fst (fanout env qs w)) = length qs \<and>
   (\<forall>i<length qs.
      call_query (fst (launch env qs 12 w) ! i) = qs ! i \<and>
      fst (fanout env qs w) ! i = settle env (fst (launch env qs 12 w) ! i)) \<and>
   collect [] rs = concat (map (\<lambda>r. case r of Fulfilled v \<Rightarrow> v | Rejected e \<Rightarrow> []) rs) \<and>
   (prompt b = JStr s \<and> collect [] (fst (fanout env (bydj_queries s) w')) \<noteq> [] \<longrightarrow>
      (\<exists>info. fst (bydj env b w') =
         Json_tracks
           (take 12 (dedupe env {} []
              (concat (map (\<lambda>r. case r of Fulfilled v \<Rightarrow> v | Rejected e \<Rightarrow> [])
                         (fst (fanout env (bydj_queries s) w'))))))
           info)) \<and>
   (prompt b = JStr s \<and> fst (bydj env b w') = Status_error code msg \<longrightarrow>
      collect [] (fst (fanout env (bydj_queries s) w')) = [] \<and>
      (\<exists>e. fst (searchTrackOnSpotify env (JStr ''nostalgic mellow mix'') 20
                 (snd (fanout env (bydj_queries s) w'))) = Inl e))"
proof (intro conjI allI impI)
  show "length (fst (fanout env qs w)) = length qs"
    by (simp add: fanout_fst launch_length)
  show "call_query (fst (launch env qs 12 w) ! i) = qs ! i" if "i < length qs" for i
    using that launch_queries [of env qs 12 w] launch_length [of env qs 12 w]
    by (metis nth_map)
  show "fst (fanout env qs w) ! i = settle env (fst (launch env qs 12 w) ! i)"
    if "i < length qs" for i
    using that by (simp add: fanout_fst launch_length)
  show "collect [] rs = concat (map (\<lambda>r. case r of Fulfilled v \<Rightarrow> v | Rejected e \<Rightarrow> []) rs)"
    using collect_concat [of "[]" rs] by simp
next
  assume h: "prompt b = JStr s \<and> collect [] (fst (fanout env (bydj_queries s) w')) \<noteq> []"
  then have p: "prompt b = JStr s \<or> prompt b = JUndefined \<and> s = []" by simp
  have c: "collect [] (fst (fanout env (bydj_queries s) w')) =
           concat (map (\<lambda>r. case r of Fulfilled v \<Rightarrow> v | Rejected e \<Rightarrow> [])
                     (fst (fanout env (bydj_queries s) w')))"
    using collect_concat [of "[]"] by simp
  from h have "\<exists>info. fst (bydj env b w') =
         Json_tracks (take 12 (dedupe env {} [] (collect [] (fst (fanout env (bydj_queries s) w')))))
           info"
    by (simp add: bydj_string [OF p] Let_def bydj_json_def)
  then show "\<exists>info. fst (bydj env b w') =
         Json_tracks
           (take 12 (dedupe env {} []
              (concat (map (\<lambda>r. case r of Fulfilled v \<Rightarrow> v | Rejected e \<Rightarrow> [])
                         (fst (fanout env (bydj_queries s) w'))))))
           info"
    unfolding c .
next
  assume h: "prompt b = JStr s \<and> fst (bydj env b w') = Status_error code msg"
  then have p: "prompt b = JStr s \<or> prompt b = JUndefined \<and> s = []" by simp
  from h show "collect [] (fst (fanout env (bydj_queries s) w')) = []"
    by (auto simp add: bydj_string [OF p] bydj_json_def Let_def case_prod_beta
        split: if_splits sum.splits)
  from h show "\<exists>e. fst (searchTrackOnSpotify env (JStr ''nostalgic mellow mix'') 20
                 (snd (fanout env (bydj_queries s) w'))) = Inl e"
    by (auto simp add: bydj_string [OF p] bydj_json_def Let_def case_prod_beta
        split: if_splits sum.splits)
qed

lemma fanout_partial:
  "fst (fanout env_partial (bydj_queries ''rainy night'') world0) =
     [Fulfilled [toTrack item_a], Rejected SearchError, Fulfilled [toTrack item_b],
      Fulfilled [toTrack item_b]]"
  by (simp add: fanout_fst bydj_queries_def search_begin_def token_begin_def world0_def
      settle_def call_outcome_def token_value_def env_partial_def env0_def Let_def)


lemma show_nat_small:
  "show_nat 0 = ''0''" "show_nat (Suc 0) = ''1''" "show_nat (Suc (Suc 0)) = ''2''"
  by code_simp+

lemma title_key_items:
  "title_key env (toTrack item_a) = ''song a''" "title_key env (toTrack item_a2) = ''song a''"
  "title_key env (toTrack item_b) = ''song b''" "title_key env (toTrack item_blank) = []"
  by code_simp+

lemma snd_fanout_dup:
  "snd (fanout env_dup (bydj_queries ''rainy night'') world0) =
     \<lparr>spotifyAccessToken = Some ''tok'', spotifyTokenExpiresAt = 3600003, reads = 4,
      exchanges = 4, calls = 4,
      searches = [(JStr ''rainy night'', 12), (JStr ''rainy night popular tracks'', 12),
                  (JStr ''rainy night vibes music'', 12), (JStr ''rainy night top songs'', 12)]\<rparr>"
  by (simp add: fanout_def allSettled_def bydj_queries_def search_begin_def token_begin_def
      world0_def token_store_def log_request_def token_value_def arrival_of_def
      env_dup_def env0_def Let_def)

lemma fst_fanout_dup:
  "fst (fanout env_dup (bydj_queries ''rainy night'') world0) =
     [Fulfilled [], Fulfilled [], Fulfilled [], Fulfilled []]"
  by (simp add: fanout_fst bydj_queries_def search_begin_def token_begin_def world0_def
      settle_def call_outcome_def token_value_def env_dup_def env0_def Let_def)

lemma fallback_dup:
  "searchTrackOnSpotify env_dup (JStr ''nostalgic mellow mix'') 20
     (snd (fanout env_dup (bydj_queries ''rainy night'') world0)) =
   (Inr [toTrack item_a, toTrack item_a2],
     \<lparr>spotifyAccessToken = Some ''tok'', spotifyTokenExpiresAt = 3600003, reads = 5,
      exchanges = 4, calls = 5,
      searches = [(JStr ''rainy night'', 12), (JStr ''rainy night popular tracks'', 12),
                  (JStr ''rainy night vibes music'', 12), (JStr ''rainy night top songs'', 12),
                  (JStr ''nostalgic mellow mix'', 20)]\<rparr>)"
  unfolding snd_fanout_dup
  by (simp add: searchTrackOnSpotify_def search_end_def search_begin_def
      token_begin_def token_store_def log_request_def token_value_def call_outcome_def
      env_dup_def env0_def Let_def)

lemma rainy_queries:
  "length (bydj_queries ''rainy night'') = 4"
  "prompt body_rainy = JStr ''rainy night'' \<or> prompt body_rainy = JUndefined \<and> ''rainy night'' = []"
  "mood body_rainy = JUndefined"
  "calls world0 = 0"
  by (simp_all add: bydj_queries_def body_rainy_def body0_def world0_def)

lemma bydj_dup:
  "fst (bydj env_dup body_rainy world0) =
     Json_tracks [toTrack item_a]
       \<lparr>label = ''Build-A-Track result'',
        snapshot = Some ''Generated 1 unique tracks from your ingredients.''\<rparr>"
  unfolding bydj_string [OF rainy_queries(2)]
  by (simp add: rainy_queries fst_fanout_dup fallback_dup bydj_json_def
      title_key_items show_nat_small Let_def)


lemma fst_fanout_blank:
  "fst (fanout env_blank (bydj_queries ''rainy night'') world0) =
     [Fulfilled [toTrack item_blank], Fulfilled [], Fulfilled [], Fulfilled []]"
  by (simp add: fanout_fst bydj_queries_def search_begin_def token_begin_def world0_def
      settle_def call_outcome_def token_value_def env_blank_def env0_def Let_def)

lemma bydj_blank:
  "fst (bydj env_blank body_rainy world0) =
     Json_tracks []
       \<lparr>label = ''Build-A-Track result'',
        snapshot = Some ''Generated 0 unique tracks from your ingredients.''\<rparr> \<and>
   calls (snd (bydj env_blank body_rainy world0)) = 4"
  unfolding bydj_string [OF rainy_queries(2)]
  by (simp add: rainy_queries fst_fanout_blank bydj_json_def fanout_calls
      title_key_items show_nat_small Let_def)

text \<open>
  C3, as the code has it. For a request whose prompt is a string or absent, the fallback
  query is issued exactly when the concatenation of the fulfilled fan-out results is
  empty, which is tested before the deduplication: the request then makes one search
  call more than it has queries, and otherwise as many as it has queries. The results of
  a successful fallback take the place of the concatenation and go through the same
  deduplication as any other; the response carries the first 12 of what remains.
\<close>

theorem bydj_fallback_when_combined_empty:
  assumes "prompt b = JStr s \<or> prompt b = JUndefined \<and> s = []"
  shows
    "(collect [] (fst (fanout env (bydj_queries s) w)) \<noteq> [] \<longrightarrow>
        calls (snd (bydj env b w)) = calls w + length (bydj_queries s) \<and>
        (\<exists>info. fst (bydj env b w) =
           Json_tracks (take 12 (dedupe env {} [] (collect [] (fst (fanout env (bydj_queries s) w)))))
             info)) \<and>
     (collect [] (fst (fanout env (bydj_queries s) w)) = [] \<longrightarrow>
        calls (snd (bydj env b w)) = Suc (calls w + length (bydj_queries s)) \<and>
        (\<forall>fb. fst (searchTrackOnSpotify env (JStr ''nostalgic mellow mix'') 20
                    (snd (fanout env (bydj_queries s) w))) = Inr fb \<longrightarrow>
           (\<exists>info. fst (bydj env b w) = Json_tracks (take 12 (dedupe env {} [] fb)) info)))"
proof (intro conjI impI allI)
  assume ne: "collect [] (fst (fanout env (bydj_queries s) w)) \<noteq> []"
  show "calls (snd (bydj env b w)) = calls w + length (bydj_queries s)"
    using ne by (simp add: bydj_string [OF assms] Let_def fanout_calls)
  show "\<exists>info. fst (bydj env b w) =
           Json_tracks (take 12 (dedupe env {} [] (collect [] (fst (fanout env (bydj_queries s) w)))))
             info"
    using ne by (simp add: bydj_string [OF assms] Let_def bydj_json_def)
next
  assume e: "collect [] (fst (fanout env (bydj_queries s) w)) = []"
  show "calls (snd (bydj env b w)) = Suc (calls w + length (bydj_queries s))"
    using e search_calls [of env "JStr ''nostalgic mellow mix''" 20 "snd (fanout env (bydj_queries s) w)"]
    by (simp add: bydj_string [OF assms] Let_def fanout_calls case_prod_beta split: sum.splits)
  show "\<exists>info. fst (bydj env b w) = Json_tracks (take 12 (dedupe env {} [] fb)) info"
    if "fst (searchTrackOnSpotify env (JStr ''nostalgic mellow mix'') 20
              (snd (fanout env (bydj_queries s) w))) = Inr fb" for fb
    using e that
    by (simp add: bydj_string [OF assms] Let_def bydj_json_def case_prod_beta)
qed

theorem bydj_fallback_when_combined_empty_witness:
  "calls (snd (bydj env_dup body_rainy world0)) = 5 \<and>
   (\<exists>info. fst (bydj env_dup body_rainy world0) = Json_tracks [toTrack item_a] info) \<and>
   calls (snd (bydj env_partial body_rainy world0)) = 4 \<and>
   (\<exists>info. fst (bydj env_partial body_rainy world0) =
      Json_tracks [toTrack item_a, toTrack item_b] info)"
proof -
  have e: "collect [] (fst (fanout env_dup (bydj_queries ''rainy night'') world0)) = []"
    by (simp add: fst_fanout_dup)
  have ne: "collect [] (fst (fanout env_partial (bydj_queries ''rainy night'') world0)) \<noteq> []"
    by (simp add: fanout_partial)
  have 1: "calls (snd (bydj env_dup body_rainy world0)) = 5 \<and>
   (\<exists>info. fst (bydj env_dup body_rainy world0) = Json_tracks [toTrack item_a] info)"
    using bydj_fallback_when_combined_empty [OF rainy_queries(2), of env_dup world0,
        THEN conjunct2, THEN mp, OF e]
    by (simp add: fallback_dup rainy_queries title_key_items Let_def)
  have 2: "calls (snd (bydj env_partial body_rainy world0)) = 4 \<and>
   (\<exists>info. fst (bydj env_partial body_rainy world0) =
      Json_tracks [toTrack item_a, toTrack item_b] info)"
    using bydj_fallback_when_combined_empty [OF rainy_queries(2), of env_partial world0,
        THEN conjunct1, THEN mp, OF ne]
    by (simp add: fanout_partial rainy_queries title_key_items Let_def)
  show ?thesis
    using 1 2 by simp
qed

text \<open>
  C3, as the specification states it, fails twice. When all four queries find nothing and
  the fallback returns two tracks of the same title, the response carries only the first
  of them, so the results of the fallback are not returned verbatim. When the only track
  found has a blank title, the deduplicated list is empty and yet no fallback is issued:
  the request makes four search calls, one for each query.
\<close>

theorem bydj_fallback_counterexample:
  "fst (searchTrackOnSpotify env_dup (JStr ''nostalgic mellow mix'') 20
          (snd (fanout env_dup (bydj_queries ''rainy night'') world0))) =
     Inr [toTrack item_a, toTrack item_a2] \<and>
   fst (bydj env_dup body_rainy world0) =
     Json_tracks [toTrack item_a]
       \<lparr>label = ''Build-A-Track result'',
        snapshot = Some ''Generated 1 unique tracks from your ingredients.''\<rparr> \<and>
   dedupe env_blank {} [] (collect [] (fst (fanout env_blank (bydj_queries ''rainy night'') world0))) = [] \<and>
   calls (snd (bydj env_blank body_rainy world0)) = 4 \<and>
   length (bydj_queries ''rainy night'') = 4"
  by (simp add: fallback_dup bydj_dup bydj_blank fst_fanout_blank title_key_items Let_def
      rainy_queries)

lemma search_down: "\<exists>e. fst (searchTrackOnSpotify env_down q limit w) = Inl e"
  by (simp add: search_fst env_down_def split: sum.splits)

lemma fst_fanout_down: "collect [] (fst (fanout env_down qs w)) = []"
proof -
  have "settle env_down c = Rejected AuthError \<or> settle env_down c = Rejected SearchError" for c
    by (simp add: settle_def call_outcome_def env_down_def token_value_def env0_def
        split: sum.splits pending.splits)
  then have "(case settle env_down c of Fulfilled v \<Rightarrow> v | Rejected e \<Rightarrow> []) = []" for c
    by (metis settled.simps(6))
  then show ?thesis
    by (simp add: fanout_fst collect_concat comp_def)
qed

lemma bydj_down: "fst (bydj env_down body_rainy world0) = Status_error 500 ''Server error''"
  using search_down [of "JStr ''nostalgic mellow mix''" 20
      "snd (fanout env_down (bydj_queries ''rainy night'') world0)"]
  unfolding bydj_string [OF rainy_queries(2)]
  by (auto simp add: fst_fanout_down Let_def case_prod_beta)

theorem fanout_tolerates_failures_witness:
  "fst (fanout env_partial (bydj_queries ''rainy night'') world0) ! 1 = Rejected SearchError \<and>
   collect [] (fst (fanout env_partial (bydj_queries ''rainy night'') world0)) =
     [toTrack item_a, toTrack item_b, toTrack item_b] \<and>
   length (fst (fanout env_partial (bydj_queries ''rainy night'') world0)) = 4 \<and>
   fst (bydj env_down body_rainy world0) = Status_error 500 ''Server error'' \<and>
   (\<exists>e. fst (searchTrackOnSpotify env_down (JStr ''nostalgic mellow mix'') 20
              (snd (fanout env_down (bydj_queries ''rainy night'') world0))) = Inl e)"
proof -
  have p: "prompt body_rainy = JStr ''rainy night''"
    by (simp add: body_rainy_def)
  have 1: "fst (fanout env_partial (bydj_queries ''rainy night'') world0) ! 1 = Rejected SearchError \<and>
   collect [] (fst (fanout env_partial (bydj_queries ''rainy night'') world0)) =
     [toTrack item_a, toTrack item_b, toTrack item_b] \<and>
   length (fst (fanout env_partial (bydj_queries ''rainy night'') world0)) = 4"
    using fanout_tolerates_failures
      [of env_partial "bydj_queries ''rainy night''" world0
          "fst (fanout env_partial (bydj_queries ''rainy night'') world0)"]
    by (simp add: fanout_partial rainy_queries)
  have 2: "\<exists>e. fst (searchTrackOnSpotify env_down (JStr ''nostalgic mellow mix'') 20
              (snd (fanout env_down (bydj_queries ''rainy night'') world0))) = Inl e"
    using fanout_tolerates_failures
      [of env_down "[]" world0 "[]" body_rainy "''rainy night''" world0 500 "''Server error''"]
      p bydj_down
    by simp
  show ?thesis
    using 1 2 bydj_down by simp
qed

section \<open>The plan of the nostalgia endpoint\<close>

lemma show_2010: "show_int 2010 = ''2010''"
  by code_simp

lemma nostalgia_year_missing:
  assumes "mode b = JStr ''year''" and "\<not> truthy (year b)"
  shows "nostalgia env b w = (Status_error 400 ''Year required'', w)"
  using assms by (simp add: nostalgia_def nostalgia_plan_def nostalgia_base_def)

lemma nostalgia_prompt_missing:
  assumes "mode b = JStr ''prompt''" and "\<not> truthy (prompt b)"
  shows "nostalgia env b w = (Status_error 400 ''Prompt required'', w)"
  using assms by (simp add: nostalgia_def nostalgia_plan_def nostalgia_base_def)

lemma nostalgia_year_2010:
  assumes "mode b = JStr ''year''" and "year b = JNum 2010"
  shows "\<exists>query lab. nostalgia_plan b = Inr (query, lab) \<and>
                     sublist ''2010'' query \<and> sublist ''2010'' lab"
proof -
  let ?q0 = "''top hits '' @ ''2010'' @ '' nostalgic throwback''"
  let ?lab = "''Year '' @ ''2010'' @ '' '' @ bullet @ '' Throwback mix''"
  have base: "nostalgia_base b = Inr (?q0, ?lab)"
    using assms by (simp add: nostalgia_base_def show_2010)
  define rest where
    "rest = (if truthy (vibe b) then '' '' @ ToString (vibe b) @ '' vibe'' else []) @
            (if truthy (mood b) then '' '' @ ToString (mood b) @ '' feel'' else [])"
  have plan: "nostalgia_plan b = Inr (?q0 @ rest, ?lab)"
    using assms base by (simp add: nostalgia_plan_def Let_def rest_def)
  have "sublist ''2010'' (''top hits '' @ ''2010'' @ ('' nostalgic throwback'' @ rest))"
    by (rule sublist_appendI)
  then have q: "sublist ''2010'' (?q0 @ rest)" by simp
  have l: "sublist ''2010'' ?lab"
    by (rule sublist_appendI)
  show ?thesis
    using plan q l by blast
qed

lemma nostalgia_plan_year:
  "nostalgia_plan body_year =
     Inr (''top hits 2010 nostalgic throwback'', ''Year 2010 '' @ bullet @ '' Throwback mix'')"
  by (simp add: nostalgia_plan_def nostalgia_base_def body_year_def body0_def show_2010)

text \<open>
  C9. In mode \<^verbatim>\<open>year\<close> without a year, and in mode \<^verbatim>\<open>prompt\<close> without a prompt, the
  nostalgia endpoint answers at once with status 400 and the message that names the
  missing parameter, before any search or token request: the state of the process is
  unchanged. An absent field is falsy, and so are the other falsy values. In mode \<^verbatim>\<open>year\<close>
  with the year 2010 the plan succeeds, and both the query and the label contain
  \<^verbatim>\<open>2010\<close>, whatever the other fields are; with no other field they are
  \<^verbatim>\<open>top hits 2010 nostalgic throwback\<close> and \<^verbatim>\<open>Year 2010 \<close>, a bullet, \<^verbatim>\<open> Throwback mix\<close>.
\<close>

theorem nostalgia_required_parameters:
  "(mode b = JStr ''year'' \<and> \<not> truthy (year b) \<longrightarrow>
      nostalgia env b w = (Status_error 400 ''Year required'', w)) \<and>
   (mode b = JStr ''prompt'' \<and> \<not> truthy (prompt b) \<longrightarrow>
      nostalgia env b w = (Status_error 400 ''Prompt required'', w)) \<and>
   \<not> truthy JUndefined \<and>
   (mode b = JStr ''year'' \<and> year b = JNum 2010 \<longrightarrow>
      (\<exists>query lab. nostalgia_plan b = Inr (query, lab) \<and>
                    sublist ''2010'' query \<and> sublist ''2010'' lab)) \<and>
   nostalgia_plan body_year =
     Inr (''top hits 2010 nostalgic throwback'', ''Year 2010 '' @ bullet @ '' Throwback mix'')"
  using nostalgia_year_missing nostalgia_prompt_missing nostalgia_year_2010 nostalgia_plan_year
  by simp

theorem nostalgia_required_parameters_witness:
  "nostalgia env0 (body0\<lparr>mode := JStr ''year''\<rparr>) world0 = (Status_error 400 ''Year required'', world0) \<and>
   nostalgia env0 (body0\<lparr>mode := JStr ''prompt''\<rparr>) world0 =
     (Status_error 400 ''Prompt required'', world0) \<and>
   (\<exists>query lab. nostalgia_plan body_year = Inr (query, lab) \<and>
                 sublist ''2010'' query \<and> sublist ''2010'' lab)"
  using nostalgia_required_parameters [of "body0\<lparr>mode := JStr ''year''\<rparr>" env0 world0]
    nostalgia_required_parameters [of "body0\<lparr>mode := JStr ''prompt''\<rparr>" env0 world0]
    nostalgia_required_parameters [of body_year env0 world0]
  by (simp add: body0_def body_year_def)

section \<open>The stages of the therapy endpoint\<close>

lemma getStage_unfold:
  "getStage env sfx q w =
     (let p = searchTrackOnSpotify env (JStr (ToString q @ sfx)) 8 w
      in case fst p of
           Inl e \<Rightarrow> (Inl e, snd p)
         | Inr r \<Rightarrow>
             if r = [] then
               (let f = searchTrackOnSpotify env q 8 (snd p)
                in case fst f of
                     Inl e \<Rightarrow> (Inl e, snd f)
                   | Inr r2 \<Rightarrow> (Inr (take 6 r2), snd f))
             else (Inr (take 6 r), snd p))"
  by (simp add: getStage_def case_prod_beta Let_def split: sum.splits)

lemma therapy_no_meta: "fst (therapy env b w) \<noteq> Json_tracks ts info"
  by (simp add: therapy_def Let_def case_prod_beta split: sum.splits)

text \<open>
  C4, as the code has it. When the primary query of a stage, the seed followed by the
  language suffix, succeeds with no track, \<^verbatim>\<open>getStage\<close> makes exactly one more search call,
  with the seed alone as its query and the same limit 8, and the stage is the first 6
  tracks of what that call returns; when that call fails, the stage fails. The response
  of the therapy endpoint is the three stages or an error: it has no label and no meta
  block, and so nothing in it tells that a fallback was used.
\<close>

theorem getStage_fallback:
  assumes "searchTrackOnSpotify env (JStr (ToString q @ sfx)) 8 w = (Inr [], w1)"
  shows "calls (snd (getStage env sfx q w)) = calls w + 2 \<and>
         (\<forall>r2 w2. searchTrackOnSpotify env q 8 w1 = (Inr r2, w2) \<longrightarrow>
                   getStage env sfx q w = (Inr (take 6 r2), w2)) \<and>
         (\<forall>e w2. searchTrackOnSpotify env q 8 w1 = (Inl e, w2) \<longrightarrow>
                  getStage env sfx q w = (Inl e, w2)) \<and>
         fst (therapy env' b w') \<noteq> Json_tracks ts info"
proof (intro conjI allI impI)
  have c1: "calls w1 = Suc (calls w)"
    using search_calls [of env "JStr (ToString q @ sfx)" 8 w] assms by simp
  show "calls (snd (getStage env sfx q w)) = calls w + 2"
    using search_calls [of env q 8 w1] c1 assms
    by (simp add: getStage_unfold Let_def split: sum.splits)
  show "getStage env sfx q w = (Inr (take 6 r2), w2)"
    if "searchTrackOnSpotify env q 8 w1 = (Inr r2, w2)" for r2 w2
    using that assms by (simp add: getStage_unfold)
  show "getStage env sfx q w = (Inl e, w2)"
    if "searchTrackOnSpotify env q 8 w1 = (Inl e, w2)" for e w2
    using that assms by (simp add: getStage_unfold)
  show "fst (therapy env' b w') \<noteq> Json_tracks ts info"
    by (rule therapy_no_meta)
qed

lemma lower_hindi: "toLowerCase env ''Hindi'' = ''hindi''" "toLowerCase env ''english'' = ''english''"
  by code_simp+

lemma search_lang_primary:
  "searchTrackOnSpotify env_lang (JStr (ToString (JStr ''healing acoustic'') @ '' hindi'')) 8 world0 =
     (Inr [],
      \<lparr>spotifyAccessToken = Some ''tok'', spotifyTokenExpiresAt = 3600000, reads = 1,
       exchanges = 1, calls = 1, searches = [(JStr ''healing acoustic hindi'', 8)]\<rparr>)"
  by (simp add: searchTrackOnSpotify_def search_end_def search_begin_def
      token_begin_def token_store_def log_request_def token_value_def call_outcome_def
      env_lang_def env0_def world0_def Let_def)

lemma search_lang_fallback:
  "searchTrackOnSpotify env_lang (JStr ''healing acoustic'') 8
      \<lparr>spotifyAccessToken = Some ''tok'', spotifyTokenExpiresAt = 3600000, reads = 1,
       exchanges = 1, calls = 1, searches = [(JStr ''healing acoustic hindi'', 8)]\<rparr> =
     (Inr [toTrack item_a, toTrack item_b],
      \<lparr>spotifyAccessToken = Some ''tok'', spotifyTokenExpiresAt = 3600000, reads = 2,
       exchanges = 1, calls = 2,
       searches = [(JStr ''healing acoustic hindi'', 8), (JStr ''healing acoustic'', 8)]\<rparr>)"
  by (simp add: searchTrackOnSpotify_def search_end_def search_begin_def
      token_begin_def token_store_def log_request_def token_value_def call_outcome_def
      env_lang_def env0_def Let_def)

theorem getStage_fallback_witness:
  "getStage env_lang '' hindi'' (JStr ''healing acoustic'') world0 =
     (Inr [toTrack item_a, toTrack item_b],
      \<lparr>spotifyAccessToken = Some ''tok'', spotifyTokenExpiresAt = 3600000, reads = 2,
       exchanges = 1, calls = 2,
       searches = [(JStr ''healing acoustic hindi'', 8), (JStr ''healing acoustic'', 8)]\<rparr>)"
  using getStage_fallback [OF search_lang_primary] search_lang_fallback
  by simp

lemmas run_defs =
  searchTrackOnSpotify_def search_end_def search_begin_def token_begin_def token_store_def
  log_request_def token_value_def call_outcome_def Let_def

lemma therapy_plan_sad_hindi:
  "truthy (mood body_sad_hindi)" "language_of env (language body_sad_hindi) = Inr ''hindi''"
  "suffix_of ''hindi'' = '' hindi''"
  "stage_queries (mood body_sad_hindi) =
     (JStr ''healing acoustic'', JStr ''emotional mellow'', JStr ''uplifting indie'')"
  by (simp_all add: body_sad_hindi_def body0_def language_of_def lower_hindi suffix_of_def
      stage_queries_def js_get_def qsets_def)

lemma therapy_lang:
  "therapy env_lang body_sad_hindi world0 =
     (Json_stages [toTrack item_a, toTrack item_b] [toTrack item_a, toTrack item_b]
        [toTrack item_a, toTrack item_b],
      \<lparr>spotifyAccessToken = Some ''tok'', spotifyTokenExpiresAt = 3600000, reads = 6,
       exchanges = 1, calls = 6,
       searches = [(JStr ''healing acoustic hindi'', 8), (JStr ''healing acoustic'', 8),
                   (JStr ''emotional mellow hindi'', 8), (JStr ''emotional mellow'', 8),
                   (JStr ''uplifting indie hindi'', 8), (JStr ''uplifting indie'', 8)]\<rparr>)"
  by (simp add: therapy_def therapy_plan_sad_hindi getStage_unfold run_defs
      env_lang_def env0_def world0_def)

lemma therapy_hits:
  "therapy env_hits body_sad_hindi world0 =
     (Json_stages [toTrack item_a, toTrack item_b] [toTrack item_a, toTrack item_b]
        [toTrack item_a, toTrack item_b],
      \<lparr>spotifyAccessToken = Some ''tok'', spotifyTokenExpiresAt = 3600000, reads = 3,
       exchanges = 1, calls = 3,
       searches = [(JStr ''healing acoustic hindi'', 8), (JStr ''emotional mellow hindi'', 8),
                   (JStr ''uplifting indie hindi'', 8)]\<rparr>)"
  by (simp add: therapy_def therapy_plan_sad_hindi getStage_unfold run_defs
      env_hits_def env0_def world0_def)

text \<open>
  C4, as the specification states it, fails in its last part. For the same request, a
  catalog that finds nothing for the three queries with the suffix and a catalog that
  finds the same tracks for every query lead to the same response, though the first run
  uses the fallback in every stage (six search calls) and the second in none (three).
\<close>

theorem therapy_fallback_counterexample:
  "fst (searchTrackOnSpotify env_lang (JStr ''healing acoustic hindi'') 8 world0) = Inr [] \<and>
   fst (searchTrackOnSpotify env_hits (JStr ''healing acoustic hindi'') 8 world0) =
     Inr [toTrack item_a, toTrack item_b] \<and>
   fst (therapy env_lang body_sad_hindi world0) = fst (therapy env_hits body_sad_hindi world0) \<and>
   calls (snd (therapy env_lang body_sad_hindi world0)) = 6 \<and>
   calls (snd (therapy env_hits body_sad_hindi world0)) = 3"
proof -
  have "fst (searchTrackOnSpotify env_lang (JStr ''healing acoustic hindi'') 8 world0) = Inr []"
    using search_lang_primary by simp
  moreover have "fst (searchTrackOnSpotify env_hits (JStr ''healing acoustic hindi'') 8 world0) =
     Inr [toTrack item_a, toTrack item_b]"
    by (simp add: run_defs env_hits_def env0_def world0_def)
  ultimately show ?thesis
    by (simp add: therapy_lang therapy_hits)
qed

section \<open>Errors in staged execution\<close>

lemma nostalgia_unfold:
  assumes "nostalgia_plan b = Inr (query, lab)"
  shows "nostalgia env b w =
     (let p = searchTrackOnSpotify env (JStr query) 20 w
      in case fst p of
           Inl e \<Rightarrow> (Status_error 500 ''Server error'', snd p)
         | Inr results \<Rightarrow>
             if results = [] then
               (let f = searchTrackOnSpotify env (JStr ''nostalgic retro throwback'') 16 (snd p)
                in case fst f of
                     Inl e \<Rightarrow> (Status_error 500 ''Server error'', snd f)
                   | Inr results2 \<Rightarrow>
                       (Json_tracks (take 12 results2)
                          \<lparr>label = lab @ '' (fallback)'', snapshot = None\<rparr>, snd f))
             else (Json_tracks (take 12 results) \<lparr>label = lab, snapshot = None\<rparr>, snd p))"
  using assms by (simp add: nostalgia_def case_prod_beta Let_def split: sum.splits)

text \<open>
  C5, as the code has it. A stage fails exactly when its primary search call fails, or
  when the primary call succeeds with no track and the fallback call fails. After a
  failed primary call no fallback is attempted: the stage has made one search call and
  the error is the one of the primary call. The nostalgia endpoint, once its query is
  planned, answers with status 500 in exactly the same two cases.
\<close>

theorem staged_errors:
  "(fst (getStage env sfx q w) = Inl e \<longleftrightarrow>
      fst (searchTrackOnSpotify env (JStr (ToString q @ sfx)) 8 w) = Inl e \<or>
      fst (searchTrackOnSpotify env (JStr (ToString q @ sfx)) 8 w) = Inr [] \<and>
      fst (searchTrackOnSpotify env q 8
             (snd (searchTrackOnSpotify env (JStr (ToString q @ sfx)) 8 w))) = Inl e) \<and>
   (fst (searchTrackOnSpotify env (JStr (ToString q @ sfx)) 8 w) = Inl e \<longrightarrow>
      getStage env sfx q w =
        (Inl e, snd (searchTrackOnSpotify env (JStr (ToString q @ sfx)) 8 w)) \<and>
      calls (snd (getStage env sfx q w)) = Suc (calls w)) \<and>
   (nostalgia_plan b = Inr (query, lab) \<longrightarrow>
      (fst (nostalgia env b w') = Status_error 500 ''Server error'' \<longleftrightarrow>
         (\<exists>e'. fst (searchTrackOnSpotify env (JStr query) 20 w') = Inl e') \<or>
         fst (searchTrackOnSpotify env (JStr query) 20 w') = Inr [] \<and>
         (\<exists>e'. fst (searchTrackOnSpotify env (JStr ''nostalgic retro throwback'') 16
                    (snd (searchTrackOnSpotify env (JStr query) 20 w'))) = Inl e')))"
proof (intro conjI impI)
  show "fst (getStage env sfx q w) = Inl e \<longleftrightarrow>
      fst (searchTrackOnSpotify env (JStr (ToString q @ sfx)) 8 w) = Inl e \<or>
      fst (searchTrackOnSpotify env (JStr (ToString q @ sfx)) 8 w) = Inr [] \<and>
      fst (searchTrackOnSpotify env q 8
             (snd (searchTrackOnSpotify env (JStr (ToString q @ sfx)) 8 w))) = Inl e"
    by (auto simp add: getStage_unfold Let_def split: sum.splits if_splits)
next
  assume h: "fst (searchTrackOnSpotify env (JStr (ToString q @ sfx)) 8 w) = Inl e"
  then show "getStage env sfx q w =
        (Inl e, snd (searchTrackOnSpotify env (JStr (ToString q @ sfx)) 8 w))"
    by (simp add: getStage_unfold Let_def)
  then show "calls (snd (getStage env sfx q w)) = Suc (calls w)"
    by (simp add: search_calls)
next
  assume p: "nostalgia_plan b = Inr (query, lab)"
  show "fst (nostalgia env b w') = Status_error 500 ''Server error'' \<longleftrightarrow>
         (\<exists>e'. fst (searchTrackOnSpotify env (JStr query) 20 w') = Inl e') \<or>
         fst (searchTrackOnSpotify env (JStr query) 20 w') = Inr [] \<and>
         (\<exists>e'. fst (searchTrackOnSpotify env (JStr ''nostalgic retro throwback'') 16
                    (snd (searchTrackOnSpotify env (JStr query) 20 w'))) = Inl e')"
    by (auto simp add: nostalgia_unfold [OF p] Let_def split: sum.splits if_splits)
qed

lemma getStage_first_fails:
  "getStage env_first_fails [] (JStr ''lofi calm'') world0 =
     (Inl SearchError,
      \<lparr>spotifyAccessToken = Some ''tok'', spotifyTokenExpiresAt = 3600000, reads = 1,
       exchanges = 1, calls = 1, searches = [(JStr ''lofi calm'', 8)]\<rparr>)"
  by (simp add: getStage_unfold run_defs env_first_fails_def env0_def world0_def)

lemma fallback_would_succeed:
  "fst (searchTrackOnSpotify env_first_fails (JStr ''lofi calm'') 8
          (snd (getStage env_first_fails [] (JStr ''lofi calm'') world0))) = Inr [toTrack item_a]"
  unfolding getStage_first_fails
  by (simp add: run_defs env_first_fails_def env0_def)

lemma therapy_first_fails:
  "fst (therapy env_first_fails body_calm world0) = Status_error 500 ''Server error''"
  by (simp add: therapy_def getStage_unfold run_defs body_calm_def body0_def language_of_def
      lower_hindi suffix_of_def stage_queries_def js_get_def qsets_def object_prototype_def
      env_first_fails_def env0_def world0_def)

theorem staged_errors_witness:
  "getStage env_first_fails [] (JStr ''lofi calm'') world0 =
     (Inl SearchError, snd (searchTrackOnSpotify env_first_fails (JStr ''lofi calm'') 8 world0)) \<and>
   calls (snd (getStage env_first_fails [] (JStr ''lofi calm'') world0)) = 1 \<and>
   fst (nostalgia env_first_fails body_year world0) = Status_error 500 ''Server error''"
proof -
  have "fst (searchTrackOnSpotify env_first_fails (JStr (ToString (JStr ''lofi calm'') @ [])) 8 world0) =
        Inl SearchError"
    by (simp add: run_defs env_first_fails_def env0_def world0_def)
  from staged_errors [of env_first_fails "[]" "JStr ''lofi calm''" world0 SearchError,
      THEN conjunct2, THEN conjunct1, THEN mp, OF this]
  have 1: "getStage env_first_fails [] (JStr ''lofi calm'') world0 =
     (Inl SearchError, snd (searchTrackOnSpotify env_first_fails (JStr ''lofi calm'') 8 world0)) \<and>
   calls (snd (getStage env_first_fails [] (JStr ''lofi calm'') world0)) = 1"
    by (simp add: rainy_queries(4) search_calls)
  have "fst (searchTrackOnSpotify env_first_fails (JStr ''top hits 2010 nostalgic throwback'') 20
               world0) = Inl SearchError"
    by (simp add: run_defs env_first_fails_def env0_def world0_def)
  then have 2: "fst (nostalgia env_first_fails body_year world0) = Status_error 500 ''Server error''"
    using staged_errors [of env_first_fails "[]" "JStr ''lofi calm''" world0 SearchError body_year
        "''top hits 2010 nostalgic throwback''" "''Year 2010 '' @ bullet @ '' Throwback mix''"
        world0, THEN conjunct2, THEN conjunct2, THEN mp, OF nostalgia_plan_year]
    by blast
  show ?thesis
    using 1 2 by blast
qed

text \<open>
  C5, as the specification states it, fails. With a catalog whose first request fails
  and whose later requests succeed, the stage fails after a single search call, the
  fallback query would have succeeded had it been made, and the therapy endpoint answers
  with status 500.
\<close>

theorem staged_errors_counterexample:
  "fst (getStage env_first_fails [] (JStr ''lofi calm'') world0) = Inl SearchError \<and>
   calls (snd (getStage env_first_fails [] (JStr ''lofi calm'') world0)) = 1 \<and>
   fst (searchTrackOnSpotify env_first_fails (JStr ''lofi calm'') 8
          (snd (getStage env_first_fails [] (JStr ''lofi calm'') world0))) = Inr [toTrack item_a] \<and>
   fst (therapy env_first_fails body_calm world0) = Status_error 500 ''Server error''"
proof (intro conjI)
  show "fst (getStage env_first_fails [] (JStr ''lofi calm'') world0) = Inl SearchError"
    by (simp add: getStage_first_fails)
  show "calls (snd (getStage env_first_fails [] (JStr ''lofi calm'') world0)) = 1"
    by (simp add: getStage_first_fails)
  show "fst (searchTrackOnSpotify env_first_fails (JStr ''lofi calm'') 8
          (snd (getStage env_first_fails [] (JStr ''lofi calm'') world0))) = Inr [toTrack item_a]"
    by (rule fallback_would_succeed)
  show "fst (therapy env_first_fails body_calm world0) = Status_error 500 ''Server error''"
    by (rule therapy_first_fails)
qed

section \<open>The plan of the vibe endpoint\<close>

lemma vibe_never_400: "fst (vibe_handler env b w) \<noteq> Status_error 400 msg"
  by (simp add: vibe_handler_def case_prod_beta split: sum.splits)

lemma vibe_all_absent:
  assumes "\<not> truthy (prompt b)" and "\<not> truthy (vibe b)" and "\<not> truthy (mood b)"
  shows "vibe_plan b = Inr (JStr ''chill lofi'', ''Custom vibe'')"
  using assms
  by (simp add: vibe_plan_def vibe_base_def vibe_preset_def js_get_def vibe_map_def
      object_prototype_def replace_separators_def)

lemma vibe_unknown_key:
  assumes "\<not> truthy (prompt b)" and "\<not> truthy (mood b)" and "vibe b = JStr s" and "s \<noteq> []"
    and "map_of vibe_map s = None" and "object_prototype s = None"
  shows "vibe_plan b = Inr (JStr (s @ '' music''), replace_separators s)"
  using assms
  by (simp add: vibe_plan_def vibe_base_def vibe_preset_def js_get_def)

text \<open>
  C10. The vibe endpoint never answers with status 400, with no parameter at all it
  plans the query \<^verbatim>\<open>chill lofi\<close> and the label \<^verbatim>\<open>Custom vibe\<close>, and a vibe that is neither a
  preset nor the name of a property of \<^verbatim>\<open>Object.prototype\<close> gives the query of the vibe
  followed by \<^verbatim>\<open> music\<close> (the three lemmas above). The vibe \<^verbatim>\<open>constructor\<close> is no preset
  either, but the property read on the table of presets finds the inherited constructor
  function, which is truthy: it becomes the query, and the search call is made with it
  instead of \<^verbatim>\<open>constructor music\<close>.
\<close>

theorem vibe_inherited_key:
  "vibe_plan body_constructor = Inr (JNative ''Object'', ''constructor'') \<and>
   map_of vibe_map ''constructor'' = None \<and>
   searches (snd (vibe_handler env_hits body_constructor world0)) = [(JNative ''Object'', 18)]"
proof (intro conjI)
  show p: "vibe_plan body_constructor = Inr (JNative ''Object'', ''constructor'')"
    by (simp add: vibe_plan_def vibe_base_def vibe_preset_def js_get_def vibe_map_def
        object_prototype_def replace_separators_def body_constructor_def body0_def)
  show "map_of vibe_map ''constructor'' = None"
    by (simp add: vibe_map_def)
  show "searches (snd (vibe_handler env_hits body_constructor world0)) = [(JNative ''Object'', 18)]"
    by (simp add: vibe_handler_def p run_defs env_hits_def env0_def world0_def)
qed

end
